theory Spec2Isabelle
  imports Complex_Main "HOL-Library.Word"
begin

section \<open>Conventions of the embedding\<close>

text \<open>
  The networking core of the node (\<^verbatim>\<open>src/network\<close>) is embedded function by function.
  Python objects become records, dictionaries become maps or association lists, every
  \<^verbatim>\<open>raise\<close> becomes an \<open>Inl\<close> result and every \<^verbatim>\<open>try/except\<close> a case split on it, and
  mutated objects are passed in and returned. Python floats (clock readings, token counts)
  are idealised as \<open>real\<close>. A call of \<^verbatim>\<open>time.time()\<close> becomes an argument of the function
  that makes it, one argument per call site. What lives outside the repository (the JSON
  codec, the cryptography library, the stream transport) is passed in as a parameter.
\<close>

type_synonym byte = "8 word"
type_synonym bytes = "byte list"

section \<open>The JSON values carried by messages\<close>

datatype json =
    JNull
  | JBool bool
  | JInt int
  | JFloat real
  | JString string
  | JArray "json list"
  | JObject "(string \<times> json) list"

section \<open>protocol.py\<close>

datatype MessageType =
    HANDSHAKE
  | BLOCK
  | TRANSACTION
  | PEER_DISCOVERY
  | PEER_LIST
  | HEARTBEAT
  | CHAIN_REQUEST
  | CHAIN_RESPONSE
  | ERROR

text \<open>The members of the enumeration in declaration order, as iterating the class gives them.\<close>

definition MessageType_members :: "MessageType list" where
  "MessageType_members =
     [HANDSHAKE, BLOCK, TRANSACTION, PEER_DISCOVERY, PEER_LIST, HEARTBEAT,
      CHAIN_REQUEST, CHAIN_RESPONSE, ERROR]"

text \<open>\<^verbatim>\<open>member.name\<close> and \<^verbatim>\<open>member.value\<close>.\<close>

fun MessageType_name :: "MessageType \<Rightarrow> string" where
  "MessageType_name HANDSHAKE = ''HANDSHAKE''"
| "MessageType_name BLOCK = ''BLOCK''"
| "MessageType_name TRANSACTION = ''TRANSACTION''"
| "MessageType_name PEER_DISCOVERY = ''PEER_DISCOVERY''"
| "MessageType_name PEER_LIST = ''PEER_LIST''"
| "MessageType_name HEARTBEAT = ''HEARTBEAT''"
| "MessageType_name CHAIN_REQUEST = ''CHAIN_REQUEST''"
| "MessageType_name CHAIN_RESPONSE = ''CHAIN_RESPONSE''"
| "MessageType_name ERROR = ''ERROR''"

fun MessageType_value :: "MessageType \<Rightarrow> string" where
  "MessageType_value HANDSHAKE = ''handshake''"
| "MessageType_value BLOCK = ''block''"
| "MessageType_value TRANSACTION = ''transaction''"
| "MessageType_value PEER_DISCOVERY = ''peer_discovery''"
| "MessageType_value PEER_LIST = ''peer_list''"
| "MessageType_value HEARTBEAT = ''heartbeat''"
| "MessageType_value CHAIN_REQUEST = ''chain_request''"
| "MessageType_value CHAIN_RESPONSE = ''chain_response''"
| "MessageType_value ERROR = ''error''"

section \<open>Exceptions\<close>

text \<open>
  One constructor per \<^verbatim>\<open>raise\<close> site of the embedded functions, carrying the values its
  message interpolates, and one per exception of the runtime or of a library that the
  embedded functions can meet. \<open>exn_class\<close> gives the Python class, which is what an
  \<^verbatim>\<open>except\<close> clause looks at.
\<close>

datatype exn =
    JSONDecodeError string
    \<comment> \<open>raised by \<^verbatim>\<open>json.loads\<close>\<close>
  | UnicodeDecodeError
    \<comment> \<open>raised by \<^verbatim>\<open>bytes.decode\<close>\<close>
  | Invalid_message_format string
    \<comment> \<open>\<^verbatim>\<open>ValueError(f"Invalid message format: {e}")\<close>\<close>
  | Unsupported_protocol_version "json option"
    \<comment> \<open>\<^verbatim>\<open>ValueError(f"Unsupported protocol version: {message_dict.get('version')}")\<close>\<close>
  | Missing_required_field string
    \<comment> \<open>\<^verbatim>\<open>ValueError(f"Missing required field: {e}")\<close>\<close>
  | KeyError string
  | Not_a_valid_MessageType json
    \<comment> \<open>the \<^verbatim>\<open>ValueError\<close> of \<^verbatim>\<open>MessageType(x)\<close> for an \<^verbatim>\<open>x\<close> that is no member's value\<close>
  | AttributeError string string
    \<comment> \<open>object or class, and the attribute it does not have\<close>
  | IndexError
    \<comment> \<open>indexing an empty \<^verbatim>\<open>bytes\<close>\<close>
  | Unknown_message_type string
    \<comment> \<open>\<^verbatim>\<open>ValueError(f"Unknown message type: {message.type}")\<close>\<close>
  | Message_size_exceeds_maximum nat nat
    \<comment> \<open>\<^verbatim>\<open>ValueError(f"Message size {length} exceeds maximum {...}")\<close>\<close>
  | IncompleteReadError
    \<comment> \<open>\<^verbatim>\<open>asyncio.IncompleteReadError\<close>: end of stream before the requested bytes\<close>
  | Connection_closed_by_peer
    \<comment> \<open>\<^verbatim>\<open>ConnectionError("Connection closed by peer")\<close>\<close>
  | Failed_to_receive_message exn
    \<comment> \<open>\<^verbatim>\<open>ConnectionError(f"Failed to receive message: {e}")\<close>\<close>
  | No_session_key_for_peer string
    \<comment> \<open>\<^verbatim>\<open>ValueError(f"No session key for peer {peer_id}")\<close>\<close>
  | No_public_key_for_peer string
    \<comment> \<open>\<^verbatim>\<open>ValueError(f"No public key for peer {peer_id}")\<close>\<close>
  | Invalid_block
    \<comment> \<open>\<^verbatim>\<open>ValueError("Invalid block")\<close>\<close>
  | Invalid_transaction
    \<comment> \<open>\<^verbatim>\<open>ValueError("Invalid transaction")\<close>\<close>
  | Missing_node_id_in_handshake_message
    \<comment> \<open>\<^verbatim>\<open>ValueError("Missing node_id in handshake message")\<close>\<close>
  | Missing_chain_data_in_response
    \<comment> \<open>\<^verbatim>\<open>ValueError("Missing chain data in response")\<close>\<close>
  | NetworkError nat string
    \<comment> \<open>error_handler.py's \<^verbatim>\<open>NetworkError\<close>, with the \<^verbatim>\<open>ErrorType\<close>'s number and the message\<close>
  | Raised string string
    \<comment> \<open>any other exception: its class name and its message text\<close>

datatype py_class =
    Class_ValueError
  | Class_JSONDecodeError
  | Class_KeyError
  | Class_AttributeError
  | Class_IndexError
  | Class_IncompleteReadError
  | Class_ConnectionError
  | Class_NetworkError
  | Class_other string

fun exn_class :: "exn \<Rightarrow> py_class" where
  "exn_class (JSONDecodeError _) = Class_JSONDecodeError"
| "exn_class UnicodeDecodeError = Class_ValueError"
| "exn_class (Invalid_message_format _) = Class_ValueError"
| "exn_class (Unsupported_protocol_version _) = Class_ValueError"
| "exn_class (Missing_required_field _) = Class_ValueError"
| "exn_class (KeyError _) = Class_KeyError"
| "exn_class (Not_a_valid_MessageType _) = Class_ValueError"
| "exn_class (AttributeError _ _) = Class_AttributeError"
| "exn_class IndexError = Class_IndexError"
| "exn_class (Unknown_message_type _) = Class_ValueError"
| "exn_class (Message_size_exceeds_maximum _ _) = Class_ValueError"
| "exn_class IncompleteReadError = Class_IncompleteReadError"
| "exn_class Connection_closed_by_peer = Class_ConnectionError"
| "exn_class (Failed_to_receive_message _) = Class_ConnectionError"
| "exn_class (No_session_key_for_peer _) = Class_ValueError"
| "exn_class (No_public_key_for_peer _) = Class_ValueError"
| "exn_class Invalid_block = Class_ValueError"
| "exn_class Invalid_transaction = Class_ValueError"
| "exn_class Missing_node_id_in_handshake_message = Class_ValueError"
| "exn_class Missing_chain_data_in_response = Class_ValueError"
| "exn_class (NetworkError _ _) = Class_NetworkError"
| "exn_class (Raised c _) = Class_other c"

text \<open>error_handler.py: \<^verbatim>\<open>ErrorType\<close> numbers its members with \<^verbatim>\<open>auto()\<close>, from 1.\<close>

datatype ErrorType =
    CONNECTION_ERROR
  | PROTOCOL_ERROR
  | AUTHENTICATION_ERROR
  | RATE_LIMIT_ERROR
  | VALIDATION_ERROR
  | SYNC_ERROR
  | PEER_ERROR
  | INTERNAL_ERROR

fun ErrorType_value :: "ErrorType \<Rightarrow> nat" where
  "ErrorType_value CONNECTION_ERROR = 1"
| "ErrorType_value PROTOCOL_ERROR = 2"
| "ErrorType_value AUTHENTICATION_ERROR = 3"
| "ErrorType_value RATE_LIMIT_ERROR = 4"
| "ErrorType_value VALIDATION_ERROR = 5"
| "ErrorType_value SYNC_ERROR = 6"
| "ErrorType_value PEER_ERROR = 7"
| "ErrorType_value INTERNAL_ERROR = 8"

text \<open>Whether an exception is the repository's \<^verbatim>\<open>PROTOCOL_ERROR\<close>.\<close>

fun is_PROTOCOL_ERROR :: "exn \<Rightarrow> bool" where
  "is_PROTOCOL_ERROR (NetworkError k _) = (k = ErrorType_value PROTOCOL_ERROR)"
| "is_PROTOCOL_ERROR _ = False"

section \<open>protocol.py: messages and the codec\<close>

text \<open>
  \<^verbatim>\<open>MessageType(x)\<close>: the member whose value is \<^verbatim>\<open>x\<close>, or \<^verbatim>\<open>ValueError\<close>.
  \<^verbatim>\<open>MessageType.NAME\<close>: the member of that name, or \<^verbatim>\<open>AttributeError\<close>.
\<close>

definition MessageType_call :: "json \<Rightarrow> exn + MessageType" where
  "MessageType_call x =
     (case x of
        JString s \<Rightarrow>
          (case find (\<lambda>m. MessageType_value m = s) MessageType_members of
             Some m \<Rightarrow> Inr m
           | None \<Rightarrow> Inl (Not_a_valid_MessageType x))
      | _ \<Rightarrow> Inl (Not_a_valid_MessageType x))"

definition MessageType_attr :: "string \<Rightarrow> exn + MessageType" where
  "MessageType_attr name =
     (case find (\<lambda>m. MessageType_name m = name) MessageType_members of
        Some m \<Rightarrow> Inr m
      | None \<Rightarrow> Inl (AttributeError ''MessageType'' name))"

text \<open>
  The dataclass \<^verbatim>\<open>Message\<close>. Python does not enforce the annotations of its fields, and
  \<open>decode_message\<close> stores whatever the JSON document holds, so the fields other than the
  type are JSON values; \<^verbatim>\<open>None\<close> is \<open>JNull\<close>.
\<close>

record Message =
  msg_type :: MessageType
  data :: json
  sender :: json
  timestamp :: json
  signature :: json

definition VERSION :: string where
  "VERSION = ''1.0.0''"

text \<open>The dictionary \<^verbatim>\<open>message_dict\<close> that \<open>encode_message\<close> builds.\<close>

definition message_dict :: "Message \<Rightarrow> json" where
  "message_dict message =
     JObject
       [(''type'', JString (MessageType_value (msg_type message))),
        (''data'', data message),
        (''sender'', sender message),
        (''timestamp'', timestamp message),
        (''signature'', signature message),
        (''version'', JString VERSION)]"

text \<open>
  \<open>json_dumps j\<close> stands for \<^verbatim>\<open>json.dumps(j).encode()\<close> and \<open>json_loads b\<close> for
  \<^verbatim>\<open>json.loads(b.decode())\<close>, which raises \<^verbatim>\<open>JSONDecodeError\<close> or \<^verbatim>\<open>UnicodeDecodeError\<close>.
\<close>

definition encode_message :: "(json \<Rightarrow> bytes) \<Rightarrow> Message \<Rightarrow> bytes" where
  "encode_message json_dumps message = json_dumps (message_dict message)"

text \<open>\<^verbatim>\<open>d[key]\<close> on a dictionary: the value or \<^verbatim>\<open>KeyError\<close>.\<close>

definition getitem :: "(string \<times> json) list \<Rightarrow> string \<Rightarrow> exn + json" where
  "getitem d key = (case map_of d key of Some v \<Rightarrow> Inr v | None \<Rightarrow> Inl (KeyError key))"

text \<open>
  The body of the \<^verbatim>\<open>try\<close> of \<open>decode_message\<close> after \<^verbatim>\<open>json.loads\<close>, on the loaded
  document \<open>doc\<close> (the source's second \<^verbatim>\<open>message_dict\<close>). A document that is not
  an object has no \<^verbatim>\<open>get\<close>. The arguments of \<^verbatim>\<open>Message(...)\<close> are evaluated in order, so the
  first missing key is the one reported. \<^verbatim>\<open>.get("signature")\<close> gives \<^verbatim>\<open>None\<close> for a missing key.
\<close>

definition message_of_dict :: "json \<Rightarrow> exn + Message" where
  "message_of_dict doc =
     (case doc of
        JObject d \<Rightarrow>
          if map_of d ''version'' \<noteq> Some (JString VERSION)
          then Inl (Unsupported_protocol_version (map_of d ''version''))
          else
            (case getitem d ''type'' of
               Inl e \<Rightarrow> Inl e
             | Inr t \<Rightarrow>
                 (case MessageType_call t of
                    Inl e \<Rightarrow> Inl e
                  | Inr ty \<Rightarrow>
                      (case getitem d ''data'' of
                         Inl e \<Rightarrow> Inl e
                       | Inr da \<Rightarrow>
                           (case getitem d ''sender'' of
                              Inl e \<Rightarrow> Inl e
                            | Inr se \<Rightarrow>
                                (case getitem d ''timestamp'' of
                                   Inl e \<Rightarrow> Inl e
                                 | Inr ts \<Rightarrow>
                                     Inr \<lparr>msg_type = ty, data = da, sender = se,
                                          timestamp = ts,
                                          signature =
                                            (case map_of d ''signature'' of
                                               Some s \<Rightarrow> s
                                             | None \<Rightarrow> JNull)\<rparr>)))))
      | _ \<Rightarrow> Inl (AttributeError ''message_dict'' ''get''))"

text \<open>
  The two \<^verbatim>\<open>except\<close> clauses of \<open>decode_message\<close>: a \<^verbatim>\<open>JSONDecodeError\<close> and a \<^verbatim>\<open>KeyError\<close>
  are turned into a \<^verbatim>\<open>ValueError\<close>; everything else leaves the function as it is.
\<close>

fun decode_message_except :: "exn \<Rightarrow> exn" where
  "decode_message_except (JSONDecodeError m) = Invalid_message_format m"
| "decode_message_except (KeyError k) = Missing_required_field k"
| "decode_message_except e = e"

definition decode_message :: "(bytes \<Rightarrow> exn + json) \<Rightarrow> bytes \<Rightarrow> exn + Message" where
  "decode_message json_loads bs =
     (case json_loads bs of
        Inl e \<Rightarrow> Inl (decode_message_except e)
      | Inr doc \<Rightarrow>
          (case message_of_dict doc of
             Inl e \<Rightarrow> Inl (decode_message_except e)
           | Inr message \<Rightarrow> Inr message))"

text \<open>A message as the annotations of the dataclass describe it.\<close>

definition valid_message :: "Message \<Rightarrow> bool" where
  "valid_message message =
     ((case data message of JObject _ \<Rightarrow> True | _ \<Rightarrow> False) \<and>
      (case sender message of JString _ \<Rightarrow> True | _ \<Rightarrow> False) \<and>
      (case timestamp message of JInt _ \<Rightarrow> True | JFloat _ \<Rightarrow> True | _ \<Rightarrow> False) \<and>
      (case signature message of JNull \<Rightarrow> True | JString _ \<Rightarrow> True | _ \<Rightarrow> False))"

section \<open>config.py\<close>

text \<open>
  \<^verbatim>\<open>NetworkConfig\<close>: the settings read from the environment are fields, the settings fixed
  in the class body are constants.
\<close>

record NetworkConfig =
  NODE_ID :: string
  PEER_DISCOVERY_INTERVAL :: int

definition MAX_MESSAGE_SIZE :: nat where
  "MAX_MESSAGE_SIZE = 1024 * 1024"

definition MIN_PEERS_FOR_SYNC :: nat where
  "MIN_PEERS_FOR_SYNC = 3"

definition get_node_id :: "NetworkConfig \<Rightarrow> string" where
  "get_node_id cfg = NODE_ID cfg"

text \<open>
  \<^verbatim>\<open>NetworkConfig.MAX_BLOCKS_PER_REQUEST\<close>, which sync_manager.py reads: the class body has no
  such attribute.
\<close>

definition MAX_BLOCKS_PER_REQUEST :: "exn + int" where
  "MAX_BLOCKS_PER_REQUEST = Inl (AttributeError ''NetworkConfig'' ''MAX_BLOCKS_PER_REQUEST'')"

section \<open>rate_limiter.py\<close>

record TokenBucket =
  capacity :: real
  fill_rate :: real
  tokens :: real
  last_update :: real

text \<open>The dataclass constructor with \<^verbatim>\<open>__post_init__\<close>; \<open>now\<close> is its clock reading.\<close>

definition TokenBucket_init :: "real \<Rightarrow> real \<Rightarrow> real \<Rightarrow> TokenBucket" where
  "TokenBucket_init now cap rate =
     \<lparr>capacity = cap, fill_rate = rate, tokens = cap, last_update = now\<rparr>"

text \<open>\<^verbatim>\<open>TokenBucket.consume(tokens)\<close>; the requested amount is \<open>n\<close>.\<close>

definition consume :: "real \<Rightarrow> real \<Rightarrow> TokenBucket \<Rightarrow> bool \<times> TokenBucket" where
  "consume now n b =
     (let elapsed = now - last_update b;
          b1 = b\<lparr>tokens := min (capacity b) (tokens b + elapsed * fill_rate b),
                 last_update := now\<rparr>
      in if n \<le> tokens b1 then (True, b1\<lparr>tokens := tokens b1 - n\<rparr>) else (False, b1))"

record PeerLimits =
  node_id :: string
  message_bucket :: TokenBucket
  bandwidth_bucket :: TokenBucket
  request_history :: "(real \<times> string \<times> int) list"
  blocked_until :: real

text \<open>
  \<^verbatim>\<open>request_history\<close> is a \<^verbatim>\<open>deque(maxlen=1000)\<close>: appending to a full deque discards
  from the left end.
\<close>

definition request_history_maxlen :: nat where
  "request_history_maxlen = 1000"

definition deque_append :: "nat \<Rightarrow> 'a list \<Rightarrow> 'a \<Rightarrow> 'a list" where
  "deque_append maxlen xs x = (let ys = xs @ [x] in drop (length ys - maxlen) ys)"

record RateLimiter =
  peers :: "string \<Rightarrow> PeerLimits option"
  default_message_rate :: real
  default_bandwidth_rate :: real
  burst_multiplier :: real
  request_window :: real
  max_requests_per_window :: nat
  block_duration :: real
  violation_threshold :: nat
  global_message_bucket :: TokenBucket
  global_bandwidth_bucket :: TokenBucket

text \<open>\<^verbatim>\<open>RateLimiter.__init__\<close>; each of the two buckets reads the clock when it is made.\<close>

definition RateLimiter_init :: "real \<Rightarrow> real \<Rightarrow> RateLimiter" where
  "RateLimiter_init t1 t2 =
     \<lparr>peers = (\<lambda>_. None),
      default_message_rate = 100,
      default_bandwidth_rate = 1024 * 1024,
      burst_multiplier = 2,
      request_window = 60,
      max_requests_per_window = 1000,
      block_duration = 300,
      violation_threshold = 3,
      global_message_bucket = TokenBucket_init t1 (100 * 10) (100 * 10),
      global_bandwidth_bucket = TokenBucket_init t2 (1024 * 1024 * 10) (1024 * 1024 * 10)\<rparr>"

definition add_peer :: "real \<Rightarrow> real \<Rightarrow> string \<Rightarrow> RateLimiter \<Rightarrow> RateLimiter" where
  "add_peer t1 t2 nid rl =
     (case peers rl nid of
        Some _ \<Rightarrow> rl
      | None \<Rightarrow>
          rl\<lparr>peers := (peers rl)(nid \<mapsto>
            \<lparr>node_id = nid,
             message_bucket =
               TokenBucket_init t1 (default_message_rate rl * burst_multiplier rl)
                 (default_message_rate rl),
             bandwidth_bucket =
               TokenBucket_init t2 (default_bandwidth_rate rl * burst_multiplier rl)
                 (default_bandwidth_rate rl),
             request_history = [],
             blocked_until = 0\<rparr>)\<rparr>)"

text \<open>
  \<^verbatim>\<open>update_limits\<close>: the rates are whatever the caller passes, \<^verbatim>\<open>None\<close> leaving a bucket as
  it is; no check is made on them.
\<close>

definition update_limits ::
  "real \<Rightarrow> real \<Rightarrow> string \<Rightarrow> real option \<Rightarrow> real option \<Rightarrow> RateLimiter \<Rightarrow> bool \<times> RateLimiter"
where
  "update_limits t1 t2 nid message_rate bandwidth_rate rl =
     (case peers rl nid of
        None \<Rightarrow> (False, rl)
      | Some peer \<Rightarrow>
          let peer1 =
                (case message_rate of
                   None \<Rightarrow> peer
                 | Some r \<Rightarrow>
                     peer\<lparr>message_bucket := TokenBucket_init t1 (r * burst_multiplier rl) r\<rparr>);
              peer2 =
                (case bandwidth_rate of
                   None \<Rightarrow> peer1
                 | Some r \<Rightarrow>
                     peer1\<lparr>bandwidth_bucket := TokenBucket_init t2 (r * burst_multiplier rl) r\<rparr>)
          in (True, rl\<lparr>peers := (peers rl)(nid \<mapsto> peer2)\<rparr>))"

text \<open>\<^verbatim>\<open>_block_peer\<close>, with its own clock reading.\<close>

definition block_peer :: "RateLimiter \<Rightarrow> real \<Rightarrow> PeerLimits \<Rightarrow> PeerLimits" where
  "block_peer rl now peer =
     (if blocked_until peer > now
      then peer\<lparr>blocked_until := now + block_duration rl * 2\<rparr>
      else peer\<lparr>blocked_until := now + block_duration rl\<rparr>)"

text \<open>
  \<^verbatim>\<open>_check_request_frequency\<close>: \<open>now\<close> is its own reading of the clock and \<open>now_block\<close> the
  reading \<open>block_peer\<close> makes when it is called. The \<^verbatim>\<open>while\<close> loop pops entries from the left
  as long as the first one is older than the window.
\<close>

definition check_request_frequency ::
  "RateLimiter \<Rightarrow> real \<Rightarrow> real \<Rightarrow> PeerLimits \<Rightarrow> PeerLimits"
where
  "check_request_frequency rl now now_block peer =
     (let window_start = now - request_window rl;
          peer1 = peer\<lparr>request_history :=
                    dropWhile (\<lambda>r. fst r < window_start) (request_history peer)\<rparr>
      in if length (request_history peer1) > max_requests_per_window rl
         then block_peer rl now_block peer1
         else peer1)"

text \<open>
  The second component of the result of \<open>is_allowed\<close>: \<^verbatim>\<open>None\<close>, one of the fixed texts, or
  \<^verbatim>\<open>f"Peer blocked for {blocked_until - now:.1f} seconds"\<close>, kept as the number it formats.
\<close>

datatype reason =
    Text string
  | Peer_blocked_for real

text \<open>The clock readings made during one call of \<open>is_allowed\<close>, in the order of the calls.\<close>

record is_allowed_clock =
  t_now :: real
  t_global_message :: real
  t_global_bandwidth :: real
  t_peer_message :: real
  t_peer_bandwidth :: real
  t_check :: real
  t_block :: real

text \<open>
  \<open>is_allowed\<close>. The buckets are objects mutated in place, so what \<open>consume\<close> did to a bucket
  stays done on every later \<^verbatim>\<open>return\<close>. Nothing in the body raises on these types, so the
  \<^verbatim>\<open>except\<close> clause has no branch here.
\<close>

definition is_allowed ::
  "is_allowed_clock \<Rightarrow> string \<Rightarrow> string \<Rightarrow> int \<Rightarrow> RateLimiter
     \<Rightarrow> (bool \<times> reason option) \<times> RateLimiter"
where
  "is_allowed ck nid message_type sz rl =
     (case peers rl nid of
        None \<Rightarrow> ((False, Some (Text ''Peer not registered'')), rl)
      | Some peer \<Rightarrow>
          let now = t_now ck in
          if blocked_until peer > now
          then ((False, Some (Peer_blocked_for (blocked_until peer - now))), rl)
          else
            let (ok1, gm) = consume (t_global_message ck) 1 (global_message_bucket rl);
                rl1 = rl\<lparr>global_message_bucket := gm\<rparr>
            in if \<not> ok1
               then ((False, Some (Text ''Global message rate limit exceeded'')), rl1)
               else
                 let (ok2, gb) =
                       consume (t_global_bandwidth ck) (of_int sz) (global_bandwidth_bucket rl1);
                     rl2 = rl1\<lparr>global_bandwidth_bucket := gb\<rparr>
                 in if \<not> ok2
                    then ((False, Some (Text ''Global bandwidth limit exceeded'')), rl2)
                    else
                      let (ok3, pm) = consume (t_peer_message ck) 1 (message_bucket peer);
                          peer1 = peer\<lparr>message_bucket := pm\<rparr>;
                          rl3 = rl2\<lparr>peers := (peers rl2)(nid \<mapsto> peer1)\<rparr>
                      in if \<not> ok3
                         then ((False, Some (Text ''Peer message rate limit exceeded'')), rl3)
                         else
                           let (ok4, pb) =
                                 consume (t_peer_bandwidth ck) (of_int sz)
                                   (bandwidth_bucket peer1);
                               peer2 = peer1\<lparr>bandwidth_bucket := pb\<rparr>;
                               rl4 = rl3\<lparr>peers := (peers rl3)(nid \<mapsto> peer2)\<rparr>
                           in if \<not> ok4
                              then ((False, Some (Text ''Peer bandwidth limit exceeded'')), rl4)
                              else
                                let peer3 =
                                      peer2\<lparr>request_history :=
                                        deque_append request_history_maxlen
                                          (request_history peer2) (now, message_type, sz)\<rparr>;
                                    peer4 =
                                      check_request_frequency rl4 (t_check ck) (t_block ck) peer3
                                in ((True, None), rl4\<lparr>peers := (peers rl4)(nid \<mapsto> peer4)\<rparr>))"

text \<open>A call that takes no time: every reading of the clock gives \<open>t\<close>.\<close>

definition at_time :: "real \<Rightarrow> is_allowed_clock" where
  "at_time t =
     \<lparr>t_now = t, t_global_message = t, t_global_bandwidth = t, t_peer_message = t,
      t_peer_bandwidth = t, t_check = t, t_block = t\<rparr>"

text \<open>
  A bucket's life: created at \<open>t0\<close>, then one \<open>consume\<close> per entry \<open>(now, n)\<close> of the list, in
  order.
\<close>

fun consumes :: "(real \<times> real) list \<Rightarrow> TokenBucket \<Rightarrow> TokenBucket" where
  "consumes [] b = b"
| "consumes ((now, n) # cs) b = consumes cs (snd (consume now n b))"

text \<open>The clock never goes back over the creation time \<open>t0\<close> and the calls that follow.\<close>

fun non_decreasing_from :: "real \<Rightarrow> (real \<times> real) list \<Rightarrow> bool" where
  "non_decreasing_from t0 [] = True"
| "non_decreasing_from t0 ((now, n) # cs) = (t0 \<le> now \<and> non_decreasing_from now cs)"

text \<open>
  A peer sends \<open>k\<close> messages of \<open>sz\<close> bytes, the \<open>i\<close>-th at time \<open>t0 + i * dt\<close>; the limiter
  after the last of them, and whether every one of them was allowed.
\<close>

fun send_messages ::
  "nat \<Rightarrow> real \<Rightarrow> real \<Rightarrow> string \<Rightarrow> string \<Rightarrow> int \<Rightarrow> RateLimiter \<Rightarrow> bool \<times> RateLimiter"
where
  "send_messages 0 t0 dt nid ty sz rl = (True, rl)"
| "send_messages (Suc k) t0 dt nid ty sz rl =
     (let (ok, rl1) = send_messages k t0 dt nid ty sz rl;
          (res, rl2) = is_allowed (at_time (t0 + real k * dt)) nid ty sz rl1
      in (ok \<and> fst res, rl2))"

section \<open>security.py\<close>

text \<open>
  The calls into the \<^verbatim>\<open>cryptography\<close> package, each a function of its arguments:
  \<open>load_pem_public_key\<close> parses a key, \<open>exchange\<close> is \<^verbatim>\<open>private_key.exchange(ec.ECDH(), pub)\<close>,
  \<open>hkdf_derive\<close> is \<^verbatim>\<open>HKDF(SHA256, length=32, salt=None, info=b"session_key").derive\<close>, and
  \<open>aes_cbc_encrypt key iv\<close>, \<open>aes_cbc_decrypt key iv\<close> are \<^verbatim>\<open>update\<close> followed by \<^verbatim>\<open>finalize\<close> of the
  encryptor and decryptor of \<^verbatim>\<open>Cipher(algorithms.AES(key), modes.CBC(iv))\<close>, the construction of
  the cipher included. Each can raise.
\<close>

record ('priv, 'pub) cryptography =
  load_pem_public_key :: "bytes \<Rightarrow> exn + 'pub"
  exchange :: "'priv \<Rightarrow> 'pub \<Rightarrow> exn + bytes"
  hkdf_derive :: "bytes \<Rightarrow> exn + bytes"
  aes_cbc_encrypt :: "bytes \<Rightarrow> bytes \<Rightarrow> bytes \<Rightarrow> exn + bytes"
  aes_cbc_decrypt :: "bytes \<Rightarrow> bytes \<Rightarrow> bytes \<Rightarrow> exn + bytes"

record ('priv, 'pub) SecurityManager =
  private_key :: 'priv
  public_key :: 'pub
  session_keys :: "string \<Rightarrow> bytes option"
  peer_keys :: "string \<Rightarrow> 'pub option"

text \<open>
  \<open>establish_session\<close>: the peer's key is stored before the exchange is tried, so it stays
  stored when the exchange or the derivation raises.
\<close>

definition establish_session ::
  "('priv, 'pub) cryptography \<Rightarrow> string \<Rightarrow> bytes \<Rightarrow> ('priv, 'pub) SecurityManager
     \<Rightarrow> bool \<times> ('priv, 'pub) SecurityManager"
where
  "establish_session lib peer_id peer_public_key_bytes sm =
     (case load_pem_public_key lib peer_public_key_bytes of
        Inl e \<Rightarrow> (False, sm)
      | Inr peer_public_key \<Rightarrow>
          let sm1 = sm\<lparr>peer_keys := (peer_keys sm)(peer_id \<mapsto> peer_public_key)\<rparr> in
          (case exchange lib (private_key sm1) peer_public_key of
             Inl e \<Rightarrow> (False, sm1)
           | Inr shared_key \<Rightarrow>
               (case hkdf_derive lib shared_key of
                  Inl e \<Rightarrow> (False, sm1)
                | Inr session_key \<Rightarrow>
                    (True, sm1\<lparr>session_keys := (session_keys sm1)(peer_id \<mapsto> session_key)\<rparr>))))"

definition rotate_session_key ::
  "('priv, 'pub) cryptography \<Rightarrow> string \<Rightarrow> ('priv, 'pub) SecurityManager
     \<Rightarrow> bool \<times> ('priv, 'pub) SecurityManager"
where
  "rotate_session_key lib peer_id sm =
     (case peer_keys sm peer_id of
        None \<Rightarrow> (False, sm)
      | Some peer_key \<Rightarrow>
          (case exchange lib (private_key sm) peer_key of
             Inl e \<Rightarrow> (False, sm)
           | Inr shared_key \<Rightarrow>
               (case hkdf_derive lib shared_key of
                  Inl e \<Rightarrow> (False, sm)
                | Inr new_session_key \<Rightarrow>
                    (True, sm\<lparr>session_keys := (session_keys sm)(peer_id \<mapsto> new_session_key)\<rparr>))))"

text \<open>\<^verbatim>\<open>_add_padding\<close> and \<^verbatim>\<open>_remove_padding\<close>.\<close>

definition add_padding :: "bytes \<Rightarrow> bytes" where
  "add_padding message =
     (let padding_length = 16 - length message mod 16
      in message @ replicate padding_length (of_nat padding_length))"

text \<open>
  \<^verbatim>\<open>padded_message[-1]\<close> raises \<^verbatim>\<open>IndexError\<close> on the empty string. The slice
  \<^verbatim>\<open>padded_message[:-padding_length]\<close> stops \<open>padding_length\<close> bytes before the end, at the start
  when there are fewer; \<^verbatim>\<open>[:-0]\<close> is \<^verbatim>\<open>[:0]\<close>, the empty string.
\<close>

definition remove_padding :: "bytes \<Rightarrow> exn + bytes" where
  "remove_padding padded_message =
     (if padded_message = [] then Inl IndexError
      else
        let padding_length = unat (last padded_message)
        in if padding_length = 0 then Inr []
           else Inr (take (length padded_message - padding_length) padded_message))"

text \<open>\<open>encrypt_message\<close>; \<open>iv\<close> is what \<^verbatim>\<open>os.urandom(16)\<close> returns.\<close>

definition encrypt_message ::
  "('priv, 'pub) cryptography \<Rightarrow> bytes \<Rightarrow> string \<Rightarrow> bytes \<Rightarrow> ('priv, 'pub) SecurityManager
     \<Rightarrow> bytes option"
where
  "encrypt_message lib iv peer_id message sm =
     (case session_keys sm peer_id of
        None \<Rightarrow> None
      | Some key \<Rightarrow>
          (case aes_cbc_encrypt lib key iv (add_padding message) of
             Inl e \<Rightarrow> None
           | Inr ciphertext \<Rightarrow> Some (iv @ ciphertext)))"

definition decrypt_message ::
  "('priv, 'pub) cryptography \<Rightarrow> string \<Rightarrow> bytes \<Rightarrow> ('priv, 'pub) SecurityManager
     \<Rightarrow> bytes option"
where
  "decrypt_message lib peer_id encrypted_message sm =
     (case session_keys sm peer_id of
        None \<Rightarrow> None
      | Some key \<Rightarrow>
          let iv = take 16 encrypted_message;
              ciphertext = drop 16 encrypted_message
          in (case aes_cbc_decrypt lib key iv ciphertext of
                Inl e \<Rightarrow> None
              | Inr padded_message \<Rightarrow>
                  (case remove_padding padded_message of
                     Inl e \<Rightarrow> None
                   | Inr message \<Rightarrow> Some message)))"

text \<open>
  What PKCS#7 asks of a padded text: the final byte \<open>p\<close> is between 1 and 16 and the last \<open>p\<close>
  bytes all equal \<open>p\<close>.
\<close>

definition pkcs7_well_formed :: "bytes \<Rightarrow> bool" where
  "pkcs7_well_formed padded =
     (padded \<noteq> [] \<and>
      (let p = unat (last padded)
       in 1 \<le> p \<and> p \<le> 16 \<and> p \<le> length padded \<and>
          drop (length padded - p) padded = replicate p (last padded)))"

section \<open>connection_manager.py\<close>

text \<open>
  The read half of a connection: \<open>buffer\<close> holds the bytes that arrive before the end of the
  stream, and \<open>requested\<close> logs the sizes asked of \<^verbatim>\<open>readexactly\<close>, oldest first (the log is
  not in the source; it is what a statement about reads speaks of). \<^verbatim>\<open>readexactly(n)\<close>
  returns the next \<open>n\<close> bytes, or raises \<^verbatim>\<open>IncompleteReadError\<close> at the end of the stream,
  which it has then consumed. A peer that sends neither the bytes nor the end of the stream
  keeps the call waiting; such streams are not modelled.
\<close>

record StreamReader =
  buffer :: bytes
  requested :: "nat list"

definition readexactly :: "nat \<Rightarrow> StreamReader \<Rightarrow> (exn + bytes) \<times> StreamReader" where
  "readexactly n r =
     (if n \<le> length (buffer r)
      then (Inr (take n (buffer r)),
            r\<lparr>buffer := drop n (buffer r), requested := requested r @ [n]\<rparr>)
      else (Inl IncompleteReadError, r\<lparr>buffer := [], requested := requested r @ [n]\<rparr>))"

text \<open>\<^verbatim>\<open>int.from_bytes(bs, byteorder='big')\<close>.\<close>

definition from_bytes_big :: "bytes \<Rightarrow> nat" where
  "from_bytes_big bs = foldl (\<lambda>acc b. acc * 256 + unat b) 0 bs"

text \<open>
  \<^verbatim>\<open>PeerConnection.receive_message\<close>. The first \<^verbatim>\<open>except\<close> clause turns an
  \<^verbatim>\<open>IncompleteReadError\<close> into \<^verbatim>\<open>ConnectionError("Connection closed by peer")\<close>, the second
  every other exception into \<^verbatim>\<open>ConnectionError(f"Failed to receive message: {e}")\<close>.
\<close>

definition receive_message_except :: "exn \<Rightarrow> exn" where
  "receive_message_except e =
     (if exn_class e = Class_IncompleteReadError then Connection_closed_by_peer
      else Failed_to_receive_message e)"

definition receive_message ::
  "(bytes \<Rightarrow> exn + json) \<Rightarrow> StreamReader \<Rightarrow> (exn + Message) \<times> StreamReader"
where
  "receive_message json_loads r =
     (case readexactly 4 r of
        (Inl e, r1) \<Rightarrow> (Inl (receive_message_except e), r1)
      | (Inr length_bytes, r1) \<Rightarrow>
          let len = from_bytes_big length_bytes in
          if len > MAX_MESSAGE_SIZE
          then (Inl (receive_message_except (Message_size_exceeds_maximum len MAX_MESSAGE_SIZE)),
                r1)
          else
            (case readexactly len r1 of
               (Inl e, r2) \<Rightarrow> (Inl (receive_message_except e), r2)
             | (Inr bs, r2) \<Rightarrow>
                 (case decode_message json_loads bs of
                    Inl e \<Rightarrow> (Inl (receive_message_except e), r2)
                  | Inr message \<Rightarrow> (Inr message, r2))))"

text \<open>A \<^verbatim>\<open>PeerConnection\<close> as the other modules see it.\<close>

record PeerConnection =
  peer_node_id :: string
  last_seen :: real
  is_active :: bool

section \<open>message_handler.py\<close>

text \<open>
  A handler is a function of the message that may change the node's state \<open>'st\<close> (the
  blockchain) and returns a reply, returns \<^verbatim>\<open>None\<close>, or raises. \<^verbatim>\<open>self.handlers\<close> is a
  dictionary from message types to handlers. \<open>str\<close> is Python's \<^verbatim>\<open>str\<close> on exceptions.
\<close>

type_synonym 'st handler = "Message \<Rightarrow> 'st \<Rightarrow> (exn + Message option) \<times> 'st"

text \<open>The reply built in the \<^verbatim>\<open>except\<close> clause of \<open>handle_message\<close>.\<close>

definition error_reply :: "(exn \<Rightarrow> string) \<Rightarrow> NetworkConfig \<Rightarrow> Message \<Rightarrow> exn \<Rightarrow> Message" where
  "error_reply str cfg message e =
     \<lparr>msg_type = ERROR,
      data = JObject [(''error'', JString (str e))],
      sender = JString (get_node_id cfg),
      timestamp = timestamp message,
      signature = JNull\<rparr>"

definition handle_message ::
  "(MessageType \<Rightarrow> 'st handler option) \<Rightarrow> (exn \<Rightarrow> string) \<Rightarrow> NetworkConfig \<Rightarrow> Message \<Rightarrow> 'st
     \<Rightarrow> Message option \<times> 'st"
where
  "handle_message handlers str cfg message st =
     (case handlers (msg_type message) of
        None \<Rightarrow>
          (Some (error_reply str cfg message
                   (Unknown_message_type (''MessageType.'' @ MessageType_name (msg_type message)))),
           st)
      | Some handler \<Rightarrow>
          (case handler message st of
             (Inl e, st1) \<Rightarrow> (Some (error_reply str cfg message e), st1)
           | (Inr reply, st1) \<Rightarrow> (reply, st1)))"

text \<open>
  The handlers use four classes of the packages \<^verbatim>\<open>core\<close> and \<^verbatim>\<open>consensus\<close>: what they do is a
  parameter. \<open>Block_init\<close> and \<open>Transaction_init\<close> are the constructor calls
  \<^verbatim>\<open>Block(**block_data)\<close> and \<^verbatim>\<open>Transaction(**tx_data)\<close>; the methods of the blockchain take the
  chain (the state \<open>'st\<close> of the handlers) and those that change it return it as they leave
  it, with the exception they raised, if any. \<^verbatim>\<open>self.validator\<close> is optional.
\<close>

record ('blk, 'tx, 'chain) core =
  Block_init :: "json \<Rightarrow> exn + 'blk"
  Transaction_init :: "json \<Rightarrow> exn + 'tx"
  add_block :: "'blk \<Rightarrow> 'chain \<Rightarrow> exn option \<times> 'chain"
  add_transaction :: "'tx \<Rightarrow> 'chain \<Rightarrow> exn option \<times> 'chain"
  to_dict :: "'chain \<Rightarrow> exn + json"

record ('blk, 'tx) Validator =
  validate_block :: "'blk \<Rightarrow> exn + bool"
  validate_transaction :: "'tx \<Rightarrow> exn + bool"

text \<open>
  Python's truth value of a JSON value, the name of its type, and \<^verbatim>\<open>message.data.get(key,
  default)\<close>: only a dictionary has \<^verbatim>\<open>get\<close>.
\<close>

fun truthy :: "json \<Rightarrow> bool" where
  "truthy JNull = False"
| "truthy (JBool b) = b"
| "truthy (JInt i) = (i \<noteq> 0)"
| "truthy (JFloat r) = (r \<noteq> 0)"
| "truthy (JString s) = (s \<noteq> [])"
| "truthy (JArray xs) = (xs \<noteq> [])"
| "truthy (JObject d) = (d \<noteq> [])"

fun type_name :: "json \<Rightarrow> string" where
  "type_name JNull = ''NoneType''"
| "type_name (JBool b) = ''bool''"
| "type_name (JInt i) = ''int''"
| "type_name (JFloat r) = ''float''"
| "type_name (JString s) = ''str''"
| "type_name (JArray xs) = ''list''"
| "type_name (JObject d) = ''dict''"

definition data_get :: "json \<Rightarrow> string \<Rightarrow> json \<Rightarrow> exn + json" where
  "data_get d key dflt =
     (case d of
        JObject kvs \<Rightarrow> (case map_of kvs key of Some v \<Rightarrow> Inr v | None \<Rightarrow> Inr dflt)
      | _ \<Rightarrow> Inl (AttributeError (type_name d) ''get''))"

text \<open>
  Every handler is a \<^verbatim>\<open>try\<close> whose \<^verbatim>\<open>except Exception\<close> clause logs the exception and returns
  \<^verbatim>\<open>None\<close>. For each handler \<open>handle_x_try\<close> is the body of the \<^verbatim>\<open>try\<close>, which returns or raises,
  and \<open>handle_x\<close> is the handler; \<open>except_return_None\<close> is the clause, which keeps what the
  body did to the chain before it raised.
\<close>

definition except_return_None ::
  "(exn + Message option) \<times> 'st \<Rightarrow> (exn + Message option) \<times> 'st"
where
  "except_return_None r =
     (case r of
        (Inl e, st1) \<Rightarrow> (Inr None, st1)
      | (Inr reply, st1) \<Rightarrow> (Inr reply, st1))"

definition handle_handshake_try :: "NetworkConfig \<Rightarrow> 'st handler" where
  "handle_handshake_try cfg message st =
     (case data_get (data message) ''node_id'' JNull of
        Inl e \<Rightarrow> (Inl e, st)
      | Inr nid \<Rightarrow>
          if \<not> truthy nid then (Inl Missing_node_id_in_handshake_message, st)
          else
            (Inr (Some \<lparr>msg_type = HANDSHAKE,
                        data = JObject [(''node_id'', JString (get_node_id cfg))],
                        sender = JString (get_node_id cfg),
                        timestamp = timestamp message,
                        signature = JNull\<rparr>),
             st))"

definition handle_handshake :: "NetworkConfig \<Rightarrow> 'st handler" where
  "handle_handshake cfg message st = except_return_None (handle_handshake_try cfg message st)"

definition handle_block_try ::
  "('blk, 'tx, 'chain) core \<Rightarrow> ('blk, 'tx) Validator option \<Rightarrow> 'chain handler"
where
  "handle_block_try core validator message chain =
     (case Block_init core (data message) of
        Inl e \<Rightarrow> (Inl e, chain)
      | Inr block \<Rightarrow>
          (case (case validator of
                   None \<Rightarrow> Inr True
                 | Some v \<Rightarrow> validate_block v block) of
             Inl e \<Rightarrow> (Inl e, chain)
           | Inr valid \<Rightarrow>
               if \<not> valid then (Inl Invalid_block, chain)
               else
                 (case add_block core block chain of
                    (Some e, chain1) \<Rightarrow> (Inl e, chain1)
                  | (None, chain1) \<Rightarrow> (Inr None, chain1))))"

definition handle_block ::
  "('blk, 'tx, 'chain) core \<Rightarrow> ('blk, 'tx) Validator option \<Rightarrow> 'chain handler"
where
  "handle_block core validator message chain =
     except_return_None (handle_block_try core validator message chain)"

definition handle_transaction_try ::
  "('blk, 'tx, 'chain) core \<Rightarrow> ('blk, 'tx) Validator option \<Rightarrow> 'chain handler"
where
  "handle_transaction_try core validator message chain =
     (case Transaction_init core (data message) of
        Inl e \<Rightarrow> (Inl e, chain)
      | Inr transaction \<Rightarrow>
          (case (case validator of
                   None \<Rightarrow> Inr True
                 | Some v \<Rightarrow> validate_transaction v transaction) of
             Inl e \<Rightarrow> (Inl e, chain)
           | Inr valid \<Rightarrow>
               if \<not> valid then (Inl Invalid_transaction, chain)
               else
                 (case add_transaction core transaction chain of
                    (Some e, chain1) \<Rightarrow> (Inl e, chain1)
                  | (None, chain1) \<Rightarrow> (Inr None, chain1))))"

definition handle_transaction ::
  "('blk, 'tx, 'chain) core \<Rightarrow> ('blk, 'tx) Validator option \<Rightarrow> 'chain handler"
where
  "handle_transaction core validator message chain =
     except_return_None (handle_transaction_try core validator message chain)"

definition handle_peer_discovery_try :: "NetworkConfig \<Rightarrow> 'st handler" where
  "handle_peer_discovery_try cfg message st =
     (case data_get (data message) ''peers'' (JArray []) of
        Inl e \<Rightarrow> (Inl e, st)
      | Inr _ \<Rightarrow>
          (Inr (Some \<lparr>msg_type = PEER_LIST,
                      data = JObject [(''peers'', JArray [])],
                      sender = JString (get_node_id cfg),
                      timestamp = timestamp message,
                      signature = JNull\<rparr>),
           st))"

definition handle_peer_discovery :: "NetworkConfig \<Rightarrow> 'st handler" where
  "handle_peer_discovery cfg message st =
     except_return_None (handle_peer_discovery_try cfg message st)"

definition handle_peer_list_try :: "'st handler" where
  "handle_peer_list_try message st =
     (case data_get (data message) ''peers'' (JArray []) of
        Inl e \<Rightarrow> (Inl e, st)
      | Inr _ \<Rightarrow> (Inr None, st))"

definition handle_peer_list :: "'st handler" where
  "handle_peer_list message st = except_return_None (handle_peer_list_try message st)"

definition handle_heartbeat_try :: "NetworkConfig \<Rightarrow> 'st handler" where
  "handle_heartbeat_try cfg message st =
     (Inr (Some \<lparr>msg_type = HEARTBEAT,
                 data = JObject [],
                 sender = JString (get_node_id cfg),
                 timestamp = timestamp message,
                 signature = JNull\<rparr>),
      st)"

definition handle_heartbeat :: "NetworkConfig \<Rightarrow> 'st handler" where
  "handle_heartbeat cfg message st = except_return_None (handle_heartbeat_try cfg message st)"

definition handle_chain_request_try ::
  "('blk, 'tx, 'chain) core \<Rightarrow> NetworkConfig \<Rightarrow> 'chain handler"
where
  "handle_chain_request_try core cfg message chain =
     (case to_dict core chain of
        Inl e \<Rightarrow> (Inl e, chain)
      | Inr chain_dict \<Rightarrow>
          (Inr (Some \<lparr>msg_type = CHAIN_RESPONSE,
                      data = JObject [(''chain'', chain_dict)],
                      sender = JString (get_node_id cfg),
                      timestamp = timestamp message,
                      signature = JNull\<rparr>),
           chain))"

definition handle_chain_request ::
  "('blk, 'tx, 'chain) core \<Rightarrow> NetworkConfig \<Rightarrow> 'chain handler"
where
  "handle_chain_request core cfg message chain =
     except_return_None (handle_chain_request_try core cfg message chain)"

definition handle_chain_response_try :: "'st handler" where
  "handle_chain_response_try message st =
     (case data_get (data message) ''chain'' JNull of
        Inl e \<Rightarrow> (Inl e, st)
      | Inr chain_data \<Rightarrow>
          if \<not> truthy chain_data then (Inl Missing_chain_data_in_response, st)
          else (Inr None, st))"

definition handle_chain_response :: "'st handler" where
  "handle_chain_response message st =
     except_return_None (handle_chain_response_try message st)"

definition handle_error_try :: "'st handler" where
  "handle_error_try message st =
     (case data_get (data message) ''error'' JNull of
        Inl e \<Rightarrow> (Inl e, st)
      | Inr _ \<Rightarrow> (Inr None, st))"

definition handle_error :: "'st handler" where
  "handle_error message st = except_return_None (handle_error_try message st)"

text \<open>The dictionary \<^verbatim>\<open>self.handlers\<close> that \<^verbatim>\<open>__init__\<close> builds.\<close>

definition MessageHandler_handlers ::
  "('blk, 'tx, 'chain) core \<Rightarrow> ('blk, 'tx) Validator option \<Rightarrow> NetworkConfig
     \<Rightarrow> MessageType \<Rightarrow> 'chain handler option"
where
  "MessageHandler_handlers core validator cfg =
     map_of
       [(HANDSHAKE, handle_handshake cfg),
        (BLOCK, handle_block core validator),
        (TRANSACTION, handle_transaction core validator),
        (PEER_DISCOVERY, handle_peer_discovery cfg),
        (PEER_LIST, handle_peer_list),
        (HEARTBEAT, handle_heartbeat cfg),
        (CHAIN_REQUEST, handle_chain_request core cfg),
        (CHAIN_RESPONSE, handle_chain_response),
        (ERROR, handle_error)]"

section \<open>sync_manager.py\<close>

record SyncState =
  is_syncing :: bool
  last_sync :: real
  sync_height :: int
  target_height :: int
  sync_peers :: "string list"

text \<open>
  The sync manager with what it reads of the connection manager: the dictionary
  \<^verbatim>\<open>connection_manager.peers\<close>, as the list of its items.
\<close>

record SyncManager =
  state :: SyncState
  connection_manager_peers :: "(string \<times> PeerConnection) list"

text \<open>\<open>should_sync\<close>; \<open>now\<close> is its reading of the clock.\<close>

definition should_sync :: "NetworkConfig \<Rightarrow> real \<Rightarrow> SyncManager \<Rightarrow> bool" where
  "should_sync cfg now sm =
     (if now - last_sync (state sm) < of_int (PEER_DISCOVERY_INTERVAL cfg) then False
      else if length (connection_manager_peers sm) < MIN_PEERS_FOR_SYNC then False
      else True)"

text \<open>
  The test of \<open>periodic_sync\<close>, \<^verbatim>\<open>not self.state.is_syncing and self.should_sync()\<close>, under
  which one round of its loop calls \<open>sync_blockchain\<close>.
\<close>

definition periodic_sync_starts :: "NetworkConfig \<Rightarrow> real \<Rightarrow> SyncManager \<Rightarrow> bool" where
  "periodic_sync_starts cfg now sm = (\<not> is_syncing (state sm) \<and> should_sync cfg now sm)"

text \<open>
  The request that \<open>sync_blocks_from_peer\<close> builds at the top of its loop,
  \<^verbatim>\<open>Message(type=MessageType.BLOCK_REQUEST, data={...}, sender=..., timestamp=time.time())\<close>,
  its arguments evaluated from left to right.
\<close>

definition block_request_message ::
  "NetworkConfig \<Rightarrow> real \<Rightarrow> int \<Rightarrow> int \<Rightarrow> exn + Message"
where
  "block_request_message cfg now current_height target =
     (case MessageType_attr ''BLOCK_REQUEST'' of
        Inl e \<Rightarrow> Inl e
      | Inr ty \<Rightarrow>
          (case MAX_BLOCKS_PER_REQUEST of
             Inl e \<Rightarrow> Inl e
           | Inr max_blocks \<Rightarrow>
               Inr \<lparr>msg_type = ty,
                    data = JObject
                      [(''start_height'', JInt (current_height + 1)),
                       (''end_height'', JInt (min (current_height + max_blocks) target))],
                    sender = JString (get_node_id cfg),
                    timestamp = JFloat now,
                    signature = JNull\<rparr>))"

section \<open>Concrete inputs and stand-ins for the libraries\<close>

text \<open>
  The theorems below hold for every JSON codec and every cryptography library. To evaluate
  the embedded functions on closed terms, the libraries are replaced by the small stand-ins
  of this section: a JSON codec that knows one document, Python's \<^verbatim>\<open>str\<close> on the exceptions
  that occur, and a toy cipher.
\<close>

definition example_message :: Message where
  "example_message =
     \<lparr>msg_type = HEARTBEAT, data = JObject [], sender = JString ''node-a'',
      timestamp = JInt 1700000000, signature = JNull\<rparr>"

text \<open>What \<^verbatim>\<open>json.dumps\<close> writes for the dictionary of \<open>example_message\<close>.\<close>

definition example_wire :: bytes where
  "example_wire = map (\<lambda>c. of_nat (of_char c))
     ''{\"type\": \"heartbeat\", \"data\": {}, \"sender\": \"node-a\", \"timestamp\": 1700000000, \"signature\": null, \"version\": \"1.0.0\"}''"

definition table_dumps :: "json \<Rightarrow> bytes" where
  "table_dumps j = (if j = message_dict example_message then example_wire else [])"

definition table_loads :: "bytes \<Rightarrow> exn + json" where
  "table_loads bs =
     (if bs = example_wire then Inr (message_dict example_message)
      else Inl (JSONDecodeError ''Expecting value''))"

fun standin_str :: "exn \<Rightarrow> string" where
  "standin_str Invalid_block = ''Invalid block''"
| "standin_str Missing_node_id_in_handshake_message = ''Missing node_id in handshake message''"
| "standin_str (Unknown_message_type t) = ''Unknown message type: '' @ t"
| "standin_str (Raised c m) = m"
| "standin_str _ = []"

definition example_config :: NetworkConfig where
  "example_config = \<lparr>NODE_ID = ''node-a'', PEER_DISCOVERY_INTERVAL = 300\<rparr>"

text \<open>
  Stand-ins for the classes of \<^verbatim>\<open>core\<close> and \<^verbatim>\<open>consensus\<close>: a block and a transaction are built
  from a dictionary with an integer \<^verbatim>\<open>index\<close> and are that integer, the chain is the list of
  the blocks added, and the validator accepts an index that is not negative.
\<close>

definition standin_init :: "json \<Rightarrow> exn + int" where
  "standin_init d =
     (case d of
        JObject kvs \<Rightarrow>
          (case map_of kvs ''index'' of
             Some (JInt i) \<Rightarrow> Inr i
           | _ \<Rightarrow> Inl (Raised ''TypeError'' ''missing a required argument: index''))
      | _ \<Rightarrow> Inl (Raised ''TypeError'' ''argument after ** must be a mapping''))"

definition standin_core :: "(int, int, int list) core" where
  "standin_core =
     \<lparr>Block_init = standin_init,
      Transaction_init = standin_init,
      add_block = (\<lambda>block chain. (None, chain @ [block])),
      add_transaction = (\<lambda>transaction chain. (None, chain)),
      to_dict = (\<lambda>chain. Inr (JArray (map JInt chain)))\<rparr>"

definition standin_validator :: "(int, int) Validator" where
  "standin_validator =
     \<lparr>validate_block = (\<lambda>block. Inr (0 \<le> block)),
      validate_transaction = (\<lambda>transaction. Inr (0 \<le> transaction))\<rparr>"

text \<open>A \<^verbatim>\<open>BLOCK\<close> message whose block the validator rejects, and a handshake without node id.\<close>

definition invalid_block_message :: Message where
  "invalid_block_message =
     \<lparr>msg_type = BLOCK, data = JObject [(''index'', JInt (- 1))], sender = JString ''node-b'',
      timestamp = JInt 1700000000, signature = JNull\<rparr>"

definition anonymous_handshake :: Message where
  "anonymous_handshake =
     \<lparr>msg_type = HANDSHAKE, data = JObject [], sender = JString ''node-b'',
      timestamp = JInt 1700000000, signature = JNull\<rparr>"

text \<open>
  A toy library in the place of \<^verbatim>\<open>cryptography\<close>: keys are byte strings, the exchange
  concatenates them, the derivation reverses its input, and the cipher adds the first key
  byte to every byte. It checks the lengths that the real cipher checks.
\<close>

definition standin_cryptography :: "(bytes, bytes) cryptography" where
  "standin_cryptography =
     \<lparr>load_pem_public_key =
        (\<lambda>pem. if pem = [] then Inl (Raised ''ValueError'' ''Unable to load PEM file'')
               else Inr pem),
      exchange = (\<lambda>priv pub. Inr (priv @ pub)),
      hkdf_derive = (\<lambda>shared. Inr (rev shared)),
      aes_cbc_encrypt =
        (\<lambda>key iv padded.
           if length iv = 16 \<and> length padded mod 16 = 0
           then Inr (map (\<lambda>b. b + hd key) padded)
           else Inl (Raised ''ValueError'' ''Invalid IV size or data length'')),
      aes_cbc_decrypt =
        (\<lambda>key iv ciphertext.
           if length iv = 16 \<and> length ciphertext mod 16 = 0
           then Inr (map (\<lambda>b. b - hd key) ciphertext)
           else Inl (Raised ''ValueError'' ''Invalid IV size or data length''))\<rparr>"

definition standin_manager :: "(bytes, bytes) SecurityManager" where
  "standin_manager =
     \<lparr>private_key = [7, 7, 7], public_key = [9, 9, 9],
      session_keys = (\<lambda>_. None), peer_keys = (\<lambda>_. None)\<rparr>"

text \<open>The manager after \<^verbatim>\<open>establish_session("P", ...)\<close> with the peer's key \<open>[1, 2, 3]\<close>.\<close>

definition standin_session :: "(bytes, bytes) SecurityManager" where
  "standin_session =
     standin_manager\<lparr>peer_keys := [''P'' \<mapsto> [1, 2, 3]],
                     session_keys := [''P'' \<mapsto> [3, 2, 1, 7, 7, 7]]\<rparr>"

text \<open>
  Sixteen bytes of IV and sixteen of ciphertext, which the toy cipher decrypts under the
  session key of \<open>standin_session\<close> to fourteen bytes \<open>0x41\<close> followed by \<open>3, 2\<close>.
\<close>

definition malformed_blob :: bytes where
  "malformed_blob =
     [0, 0, 0, 0, 0, 0, 0, 0, 0, 0, 0, 0, 0, 0, 0, 0,
      0x44, 0x44, 0x44, 0x44, 0x44, 0x44, 0x44, 0x44, 0x44, 0x44, 0x44, 0x44, 0x44, 0x44,
      6, 5]"

definition malformed_padded :: bytes where
  "malformed_padded =
     [0x41, 0x41, 0x41, 0x41, 0x41, 0x41, 0x41, 0x41, 0x41, 0x41, 0x41, 0x41, 0x41, 0x41,
      3, 2]"

text \<open>
  A stream whose first frame declares a length of \<open>0x00200000\<close> (2 MiB) and goes on with
  zeros.
\<close>

definition oversize_stream :: StreamReader where
  "oversize_stream = \<lparr>buffer = [0x00, 0x20, 0x00, 0x00, 0, 0, 0, 0, 0, 0, 0, 0], requested = []\<rparr>"

text \<open>A JSON codec that rejects everything.\<close>

definition rejecting_loads :: "bytes \<Rightarrow> exn + json" where
  "rejecting_loads bs = Inl (JSONDecodeError ''Expecting value'')"

text \<open>
  A limiter made at time 0 with one peer \<open>P\<close> added at time 0, and the same limiter after
  \<^verbatim>\<open>update_limits("P", message_rate=0)\<close>, which leaves \<open>P\<close> a message bucket of capacity 0.
\<close>

definition fresh_limiter :: RateLimiter where
  "fresh_limiter = add_peer 0 0 ''P'' (RateLimiter_init 0 0)"

definition starved_limiter :: RateLimiter where
  "starved_limiter = snd (update_limits 0 0 ''P'' (Some 0) None fresh_limiter)"

text \<open>
  Two predicates used to follow a limiter through a run of calls. \<open>refilled t n dt b\<close>: at
  time \<open>t\<close> the bucket \<open>b\<close> is back at its capacity, \<open>n\<close> tokens fit into it, and \<open>dt\<close> seconds
  refill \<open>n\<close> tokens. \<open>ready t dt nid sz rl\<close>: the peer \<open>nid\<close> is registered and not blocked at
  \<open>t\<close>, the window bound is not below the length bound of the history, and the four buckets
  that a call for \<open>nid\<close> with \<open>sz\<close> bytes consumes from are refilled.
\<close>

definition refilled :: "real \<Rightarrow> real \<Rightarrow> real \<Rightarrow> TokenBucket \<Rightarrow> bool" where
  "refilled t n dt b =
     (capacity b \<le> tokens b + (t - last_update b) * fill_rate b \<and>
      n \<le> capacity b \<and> n \<le> dt * fill_rate b)"

definition ready :: "real \<Rightarrow> real \<Rightarrow> string \<Rightarrow> int \<Rightarrow> RateLimiter \<Rightarrow> bool" where
  "ready t dt nid sz rl =
     (request_history_maxlen \<le> max_requests_per_window rl \<and>
      refilled t 1 dt (global_message_bucket rl) \<and>
      refilled t (of_int sz) dt (global_bandwidth_bucket rl) \<and>
      (case peers rl nid of
         None \<Rightarrow> False
       | Some peer \<Rightarrow>
           blocked_until peer \<le> t \<and>
           refilled t 1 dt (message_bucket peer) \<and>
           refilled t (of_int sz) dt (bandwidth_bucket peer)))"

section \<open>Theorems\<close>

lemma MessageType_call_value:
  "MessageType_call (JString (MessageType_value t)) = Inr t"
  by (cases t) (simp_all add: MessageType_call_def MessageType_members_def)

subsection \<open>protocol.py: the message types and the codec\<close>

lemma MessageType_members_all: "set MessageType_members = UNIV"
proof -
  have "t \<in> set MessageType_members" for t
    by (cases t) (simp_all add: MessageType_members_def)
  then show ?thesis by auto
qed

text \<open>
  Claim C3 says that the enumerated message types are eleven tags, \<open>block_request\<close> and
  \<open>block_response\<close> among them, that the decoder accepts a frame of type \<open>block_request\<close>, and
  that the sync manager can build its \<^verbatim>\<open>BLOCK_REQUEST\<close> message. In the code the enumeration
  has the nine members listed here and no other; \<^verbatim>\<open>MessageType("block_request")\<close> and
  \<^verbatim>\<open>MessageType("block_response")\<close> raise \<^verbatim>\<open>ValueError\<close>, so the decoder rejects every frame of
  these types whatever its other fields are; and \<^verbatim>\<open>MessageType.BLOCK_REQUEST\<close> raises
  \<^verbatim>\<open>AttributeError\<close>, so the sync manager's request is never built.
\<close>

theorem MessageType_lacks_block_request:
  "map MessageType_value MessageType_members =
     [''handshake'', ''block'', ''transaction'', ''peer_discovery'', ''peer_list'',
      ''heartbeat'', ''chain_request'', ''chain_response'', ''error'']
   \<and> set MessageType_members = UNIV
   \<and> MessageType_call (JString ''block_request'') =
       Inl (Not_a_valid_MessageType (JString ''block_request''))
   \<and> MessageType_call (JString ''block_response'') =
       Inl (Not_a_valid_MessageType (JString ''block_response''))
   \<and> decode_message
        (\<lambda>_. Inr (JObject [(''type'', JString ''block_request''), (''data'', d), (''sender'', s),
                           (''timestamp'', ts), (''signature'', sg),
                           (''version'', JString VERSION)])) bs =
       Inl (Not_a_valid_MessageType (JString ''block_request''))
   \<and> MessageType_attr ''BLOCK_RESPONSE'' = Inl (AttributeError ''MessageType'' ''BLOCK_RESPONSE'')
   \<and> block_request_message cfg now current_height target =
       Inl (AttributeError ''MessageType'' ''BLOCK_REQUEST'')"
  by (simp add: MessageType_members_all)
     (simp add: MessageType_members_def MessageType_call_def MessageType_attr_def
        block_request_message_def decode_message_def message_of_dict_def getitem_def)

text \<open>
  Claim C4: for every valid message \<open>m\<close> (a type of the enumeration, a JSON object as data, a
  string sender, a numeric timestamp, a string or no signature), decoding the encoding of
  \<open>m\<close> gives \<open>m\<close> back. The JSON library is a parameter; what is asked of it is that loading
  what it dumped for the dictionary of \<open>m\<close> gives that dictionary back.
\<close>

theorem decode_encode_message:
  assumes "json_loads (json_dumps (message_dict m)) = Inr (message_dict m)"
    and "valid_message m"
  shows "decode_message json_loads (encode_message json_dumps m) = Inr m"
  using assms(1)
  by (simp add: decode_message_def encode_message_def message_of_dict_def message_dict_def
      getitem_def MessageType_call_value)

theorem decode_encode_message_witness:
  "table_loads (table_dumps (message_dict example_message)) = Inr (message_dict example_message)
   \<and> valid_message example_message
   \<and> decode_message table_loads (encode_message table_dumps example_message) = Inr example_message"
proof -
  have 1: "table_loads (table_dumps (message_dict example_message)) =
      Inr (message_dict example_message)"
    by (simp add: table_loads_def table_dumps_def)
  have 2: "valid_message example_message"
    by (simp add: valid_message_def example_message_def)
  from decode_encode_message [of table_loads table_dumps example_message] 1 2
  show ?thesis by simp
qed

subsection \<open>message_handler.py: the dispatcher and the registered handlers\<close>

text \<open>
  The dispatcher by itself, for any dictionary of handlers: a call of the handler that
  raises \<open>e\<close> gives an \<^verbatim>\<open>ERROR\<close> reply with the data \<^verbatim>\<open>{"error": str(e)}\<close>, and so does a type
  without entry.
\<close>

lemma handle_message_except:
  "handlers (msg_type m) = Some h \<Longrightarrow> h m st = (Inl e, st1) \<Longrightarrow>
     handle_message handlers str cfg m st = (Some (error_reply str cfg m e), st1)"
  "handlers (msg_type m) = None \<Longrightarrow>
     handle_message handlers str cfg m st =
       (Some (error_reply str cfg m
                (Unknown_message_type (''MessageType.'' @ MessageType_name (msg_type m)))),
        st)"
  by (simp_all add: handle_message_def)

text \<open>The handlers: none of them raises, and this is what they return.\<close>

lemma except_return_None_cases:
  "body = (Inl e, st1) \<Longrightarrow> except_return_None body = (Inr None, st1)"
  "body = (Inr reply, st1) \<Longrightarrow> except_return_None body = (Inr reply, st1)"
  by (simp_all add: except_return_None_def)

lemma except_return_None_returns:
  "\<exists>reply. except_return_None body = (Inr reply, snd body)"
  by (cases body) (auto simp: except_return_None_def split: sum.splits)

lemma handle_handshake_returns:
  "\<exists>reply st1. handle_handshake cfg m st = (Inr reply, st1) \<and>
     map_option msg_type reply \<in> {None, Some HANDSHAKE}"
  by (auto simp: handle_handshake_def handle_handshake_try_def except_return_None_def
      split: sum.splits)

lemma handle_block_returns_None:
  "fst (handle_block core validator m chain) = Inr None"
  by (auto simp: handle_block_def handle_block_try_def except_return_None_def
      split: sum.splits option.splits prod.splits)

lemma handle_transaction_returns_None:
  "fst (handle_transaction core validator m chain) = Inr None"
  by (auto simp: handle_transaction_def handle_transaction_try_def except_return_None_def
      split: sum.splits option.splits prod.splits)

lemma handle_peer_discovery_returns:
  "\<exists>reply st1. handle_peer_discovery cfg m st = (Inr reply, st1) \<and>
     map_option msg_type reply \<in> {None, Some PEER_LIST}"
  by (auto simp: handle_peer_discovery_def handle_peer_discovery_try_def except_return_None_def
      split: sum.splits)

lemma handle_peer_list_returns_None: "fst (handle_peer_list m st) = Inr None"
  by (auto simp: handle_peer_list_def handle_peer_list_try_def except_return_None_def
      split: sum.splits)

lemma handle_heartbeat_returns:
  "\<exists>reply st1. handle_heartbeat cfg m st = (Inr reply, st1) \<and>
     map_option msg_type reply = Some HEARTBEAT"
  by (simp add: handle_heartbeat_def handle_heartbeat_try_def except_return_None_def)

lemma handle_chain_request_returns:
  "\<exists>reply st1. handle_chain_request core cfg m st = (Inr reply, st1) \<and>
     map_option msg_type reply \<in> {None, Some CHAIN_RESPONSE}"
  by (auto simp: handle_chain_request_def handle_chain_request_try_def except_return_None_def
      split: sum.splits)

lemma handle_chain_response_returns_None: "fst (handle_chain_response m st) = Inr None"
  by (auto simp: handle_chain_response_def handle_chain_response_try_def
      except_return_None_def split: sum.splits)

lemma handle_error_returns_None: "fst (handle_error m st) = Inr None"
  by (auto simp: handle_error_def handle_error_try_def except_return_None_def
      split: sum.splits)

lemma fst_Inr_None:
  "fst r = Inr None \<Longrightarrow>
     \<exists>reply st1. r = (Inr reply, st1) \<and>
       map_option msg_type reply \<in>
         {None, Some HANDSHAKE, Some PEER_LIST, Some HEARTBEAT, Some CHAIN_RESPONSE}"
  by (cases r) simp

text \<open>
  \<^verbatim>\<open>__init__\<close> registers a handler for every member of \<^verbatim>\<open>MessageType\<close>, and the handler
  returns: a reply that is not of type \<^verbatim>\<open>ERROR\<close>, or \<^verbatim>\<open>None\<close>.
\<close>

lemma registered_handler_returns:
  "\<exists>h reply st1.
     MessageHandler_handlers core validator cfg t = Some h \<and>
     h m st = (Inr reply, st1) \<and>
     map_option msg_type reply \<in>
       {None, Some HANDSHAKE, Some PEER_LIST, Some HEARTBEAT, Some CHAIN_RESPONSE}"
proof (cases t)
  case HANDSHAKE
  with handle_handshake_returns [of cfg m st] show ?thesis
    by (auto simp: MessageHandler_handlers_def)
next
  case BLOCK
  with fst_Inr_None [OF handle_block_returns_None [of core validator m st]] show ?thesis
    by (simp add: MessageHandler_handlers_def)
next
  case TRANSACTION
  with fst_Inr_None [OF handle_transaction_returns_None [of core validator m st]] show ?thesis
    by (simp add: MessageHandler_handlers_def)
next
  case PEER_DISCOVERY
  with handle_peer_discovery_returns [of cfg m st] show ?thesis
    by (auto simp: MessageHandler_handlers_def)
next
  case PEER_LIST
  with fst_Inr_None [OF handle_peer_list_returns_None [of m st]] show ?thesis
    by (simp add: MessageHandler_handlers_def)
next
  case HEARTBEAT
  with handle_heartbeat_returns [of cfg m st] show ?thesis
    by (auto simp: MessageHandler_handlers_def)
next
  case CHAIN_REQUEST
  with handle_chain_request_returns [of core cfg m st] show ?thesis
    by (auto simp: MessageHandler_handlers_def)
next
  case CHAIN_RESPONSE
  with fst_Inr_None [OF handle_chain_response_returns_None [of m st]] show ?thesis
    by (simp add: MessageHandler_handlers_def)
next
  case ERROR
  with fst_Inr_None [OF handle_error_returns_None [of m st]] show ?thesis
    by (simp add: MessageHandler_handlers_def)
qed

text \<open>
  Claim C7, amended: for every message (its type a member of \<^verbatim>\<open>MessageType\<close>) dispatched
  with the handlers that \<^verbatim>\<open>__init__\<close> registers, the type has a handler, the handler returns without raising, and the dispatcher
  returns what the handler returned, which is \<^verbatim>\<open>None\<close> or a reply of type \<^verbatim>\<open>HANDSHAKE\<close>,
  \<^verbatim>\<open>PEER_LIST\<close>, \<^verbatim>\<open>HEARTBEAT\<close> or \<^verbatim>\<open>CHAIN_RESPONSE\<close>, never one of type \<^verbatim>\<open>ERROR\<close>. When the
  body of \<open>handle_block\<close> raises an exception (for an invalid block,
  \<^verbatim>\<open>ValueError("Invalid block")\<close>), the handler catches it itself and the dispatcher returns
  \<^verbatim>\<open>None\<close>, with the chain as the body left it.
\<close>

theorem handle_message_registered_handlers:
  "(\<exists>h reply st1.
      MessageHandler_handlers core validator cfg (msg_type m) = Some h \<and>
      h m st = (Inr reply, st1) \<and>
      handle_message (MessageHandler_handlers core validator cfg) str cfg m st = (reply, st1) \<and>
      map_option msg_type reply \<in>
        {None, Some HANDSHAKE, Some PEER_LIST, Some HEARTBEAT, Some CHAIN_RESPONSE})
   \<and> (msg_type m = BLOCK \<and> handle_block_try core validator m st = (Inl e, st2) \<longrightarrow>
        handle_message (MessageHandler_handlers core validator cfg) str cfg m st = (None, st2))"
proof -
  from registered_handler_returns [of core validator cfg "msg_type m" m st]
  obtain h reply st1 where
    h: "MessageHandler_handlers core validator cfg (msg_type m) = Some h"
       "h m st = (Inr reply, st1)"
       "map_option msg_type reply \<in>
          {None, Some HANDSHAKE, Some PEER_LIST, Some HEARTBEAT, Some CHAIN_RESPONSE}"
    by blast
  then have "handle_message (MessageHandler_handlers core validator cfg) str cfg m st =
      (reply, st1)"
    by (simp add: handle_message_def)
  with h have 1: "\<exists>h reply st1.
      MessageHandler_handlers core validator cfg (msg_type m) = Some h \<and>
      h m st = (Inr reply, st1) \<and>
      handle_message (MessageHandler_handlers core validator cfg) str cfg m st = (reply, st1) \<and>
      map_option msg_type reply \<in>
        {None, Some HANDSHAKE, Some PEER_LIST, Some HEARTBEAT, Some CHAIN_RESPONSE}"
    by blast
  have 2: "handle_message (MessageHandler_handlers core validator cfg) str cfg m st = (None, st2)"
    if "msg_type m = BLOCK" "handle_block_try core validator m st = (Inl e, st2)"
    using that
    by (simp add: handle_message_def MessageHandler_handlers_def handle_block_def
        except_return_None_def)
  from 1 2 show ?thesis by blast
qed

lemma invalid_block_raises:
  "handle_block_try standin_core (Some standin_validator) invalid_block_message [7, 8] =
     (Inl Invalid_block, [7, 8])"
  by (simp add: handle_block_try_def standin_core_def standin_validator_def standin_init_def
      invalid_block_message_def)

theorem handle_message_registered_handlers_witness:
  "msg_type invalid_block_message = BLOCK
   \<and> handle_block_try standin_core (Some standin_validator) invalid_block_message [7, 8] =
       (Inl Invalid_block, [7, 8])
   \<and> handle_message (MessageHandler_handlers standin_core (Some standin_validator) example_config)
       standin_str example_config invalid_block_message [7, 8] = (None, [7, 8])"
proof -
  have 1: "msg_type invalid_block_message = BLOCK"
    by (simp add: invalid_block_message_def)
  from handle_message_registered_handlers
         [of standin_core "Some standin_validator" example_config invalid_block_message
             "[7, 8]" standin_str Invalid_block "[7, 8]"]
       1 invalid_block_raises
  show ?thesis by simp
qed

text \<open>
  Claim C7 as stated fails: the check of the block in \<open>handle_block\<close> raises
  \<^verbatim>\<open>ValueError("Invalid block")\<close> for the message below, and the dispatcher returns \<^verbatim>\<open>None\<close>,
  not the \<^verbatim>\<open>ERROR\<close> reply that carries the text \<^verbatim>\<open>Invalid block\<close>. In the same way the handshake
  without node id raises \<^verbatim>\<open>ValueError("Missing node_id in handshake message")\<close> in
  \<open>handle_handshake\<close> and gets no reply.
\<close>

theorem handle_message_invalid_block_no_reply:
  "handle_block_try standin_core (Some standin_validator) invalid_block_message [7, 8] =
     (Inl Invalid_block, [7, 8])
   \<and> fst (handle_message
            (MessageHandler_handlers standin_core (Some standin_validator) example_config)
            standin_str example_config invalid_block_message [7, 8]) = None
   \<and> fst (handle_message
            (MessageHandler_handlers standin_core (Some standin_validator) example_config)
            standin_str example_config invalid_block_message [7, 8])
       \<noteq> Some (error_reply standin_str example_config invalid_block_message Invalid_block)
   \<and> data (error_reply standin_str example_config invalid_block_message Invalid_block) =
       JObject [(''error'', JString ''Invalid block'')]
   \<and> handle_handshake_try example_config anonymous_handshake [7, 8 :: int] =
       (Inl Missing_node_id_in_handshake_message, [7, 8])
   \<and> fst (handle_message
            (MessageHandler_handlers standin_core (Some standin_validator) example_config)
            standin_str example_config anonymous_handshake [7, 8]) = None"
proof -
  have b: "handle_block standin_core (Some standin_validator) invalid_block_message [7, 8] =
      (Inr None, [7, 8])"
    by (simp add: handle_block_def invalid_block_raises except_return_None_def)
  have 1: "fst (handle_message
            (MessageHandler_handlers standin_core (Some standin_validator) example_config)
            standin_str example_config invalid_block_message [7, 8]) = None"
    by (simp add: handle_message_def MessageHandler_handlers_def invalid_block_message_def
        b [unfolded invalid_block_message_def])
  have t: "handle_handshake_try example_config anonymous_handshake [7, 8 :: int] =
       (Inl Missing_node_id_in_handshake_message, [7, 8])"
    by (simp add: handle_handshake_try_def anonymous_handshake_def data_get_def)
  then have h: "handle_handshake example_config anonymous_handshake [7, 8 :: int] =
      (Inr None, [7, 8])"
    by (simp add: handle_handshake_def except_return_None_def)
  have 2: "fst (handle_message
            (MessageHandler_handlers standin_core (Some standin_validator) example_config)
            standin_str example_config anonymous_handshake [7, 8]) = None"
    by (simp add: handle_message_def MessageHandler_handlers_def anonymous_handshake_def
        h [unfolded anonymous_handshake_def])
  have 3: "data (error_reply standin_str example_config invalid_block_message Invalid_block) =
       JObject [(''error'', JString ''Invalid block'')]"
    by (simp add: error_reply_def)
  from invalid_block_raises 1 2 3 t show ?thesis by simp
qed

subsection \<open>sync_manager.py: when to synchronise\<close>

text \<open>
  Claim C8, amended: \<open>should_sync\<close> returns true if and only if the time since the last sync
  is at least \<^verbatim>\<open>PEER_DISCOVERY_INTERVAL\<close> and the connection manager holds at least
  \<^verbatim>\<open>MIN_PEERS_FOR_SYNC\<close> peers; it does not look at \<open>is_syncing\<close>. The third condition is
  checked by its caller: \<open>periodic_sync\<close> starts a sync if and only if all three hold.
\<close>

theorem should_sync_two_conditions:
  "(should_sync cfg now sm \<longleftrightarrow>
      of_int (PEER_DISCOVERY_INTERVAL cfg) \<le> now - last_sync (state sm) \<and>
      MIN_PEERS_FOR_SYNC \<le> length (connection_manager_peers sm)) \<and>
   (periodic_sync_starts cfg now sm \<longleftrightarrow>
      of_int (PEER_DISCOVERY_INTERVAL cfg) \<le> now - last_sync (state sm) \<and>
      MIN_PEERS_FOR_SYNC \<le> length (connection_manager_peers sm) \<and>
      \<not> is_syncing (state sm))"
  by (auto simp: should_sync_def periodic_sync_starts_def)

text \<open>
  Claim C8 as stated fails: with a sync running, 1000 seconds after the last one and three
  peers connected, \<open>should_sync\<close> returns true although the three conditions do not all hold.
\<close>

theorem should_sync_ignores_is_syncing:
  "should_sync \<lparr>NODE_ID = ''node-a'', PEER_DISCOVERY_INTERVAL = 300\<rparr> 1000
     \<lparr>state = \<lparr>is_syncing = True, last_sync = 0, sync_height = 0, target_height = 0,
               sync_peers = []\<rparr>,
      connection_manager_peers =
        [(''p1'', \<lparr>peer_node_id = ''p1'', last_seen = 990, is_active = True\<rparr>),
         (''p2'', \<lparr>peer_node_id = ''p2'', last_seen = 990, is_active = True\<rparr>),
         (''p3'', \<lparr>peer_node_id = ''p3'', last_seen = 990, is_active = True\<rparr>)]\<rparr>
   \<and> \<not> ((300::real) \<le> 1000 - 0 \<and> MIN_PEERS_FOR_SYNC \<le> (3::nat) \<and> \<not> True)"
  by (simp add: should_sync_def MIN_PEERS_FOR_SYNC_def)

subsection \<open>security.py: sessions, rotation and padding\<close>

lemma establish_session_True:
  assumes "establish_session lib peer_id pem sm = (True, sm1)"
  obtains pk shared k where
    "peer_keys sm1 peer_id = Some pk" "private_key sm1 = private_key sm"
    "exchange lib (private_key sm) pk = Inr shared" "hkdf_derive lib shared = Inr k"
    "session_keys sm1 peer_id = Some k"
  using assms
  by (auto simp: establish_session_def Let_def split: sum.splits)

text \<open>
  Claim C1 says that after \<open>establish_session\<close> stored a key \<open>k1\<close>, \<open>rotate_session_key\<close>
  stores a different key \<open>k2\<close>, under which what was encrypted before no longer decrypts.
  In the code the rotation repeats the same exchange, between the node's own private key
  and the stored public key of the peer, and the same derivation: for every library it
  succeeds and leaves the manager as it was, the session key included, so every blob
  decrypts after the rotation exactly as it did before.
\<close>

theorem rotate_session_key_same_key:
  assumes "establish_session lib peer_id pem sm = (True, sm1)"
  shows "\<exists>k1. session_keys sm1 peer_id = Some k1 \<and>
           rotate_session_key lib peer_id sm1 = (True, sm1) \<and>
           session_keys (snd (rotate_session_key lib peer_id sm1)) peer_id = Some k1 \<and>
           decrypt_message lib peer_id blob (snd (rotate_session_key lib peer_id sm1)) =
             decrypt_message lib peer_id blob sm1"
proof -
  from assms obtain pk shared k where
    *: "peer_keys sm1 peer_id = Some pk" "private_key sm1 = private_key sm"
       "exchange lib (private_key sm) pk = Inr shared" "hkdf_derive lib shared = Inr k"
       "session_keys sm1 peer_id = Some k"
    by (rule establish_session_True)
  have "(session_keys sm1)(peer_id \<mapsto> k) = session_keys sm1"
    using *(5) by (simp add: fun_upd_idem)
  then have "rotate_session_key lib peer_id sm1 = (True, sm1)"
    using * by (simp add: rotate_session_key_def)
  with *(5) show ?thesis by simp
qed

theorem rotate_session_key_same_key_witness:
  "establish_session standin_cryptography ''P'' [1, 2, 3] standin_manager =
     (True, standin_session)
   \<and> session_keys standin_session ''P'' = Some [3, 2, 1, 7, 7, 7]
   \<and> rotate_session_key standin_cryptography ''P'' standin_session = (True, standin_session)"
proof -
  have e: "establish_session standin_cryptography ''P'' [1, 2, 3] standin_manager =
     (True, standin_session)"
    by (simp add: establish_session_def standin_cryptography_def standin_manager_def
        standin_session_def)
  have k: "session_keys standin_session ''P'' = Some [3, 2, 1, 7, 7, 7]"
    by (simp add: standin_session_def)
  from rotate_session_key_same_key [OF e] e k show ?thesis by blast
qed

text \<open>Well-formed padding is stripped: \<^verbatim>\<open>_remove_padding\<close> undoes \<^verbatim>\<open>_add_padding\<close>.\<close>

lemma remove_padding_add_padding: "remove_padding (add_padding message) = Inr message"
proof -
  define p where "p = 16 - length message mod 16"
  have p: "1 \<le> p" "p \<le> 16" by (simp_all add: p_def)
  then have l: "last (message @ replicate p (of_nat p :: byte)) = of_nat p"
    by (cases p) simp_all
  have "p mod 2 ^ LENGTH(8) = p"
    using p by simp
  then have u: "unat (of_nat p :: byte) = p"
    by (simp only: unat_of_nat)
  have n: "message @ replicate p (of_nat p :: byte) \<noteq> []"
    using p by (cases p) simp_all
  show ?thesis
    unfolding remove_padding_def add_padding_def Let_def p_def [symmetric]
    using p l u n by simp
qed

text \<open>
  Claim C9, amended: for a peer with a session key, \<open>decrypt_message\<close> takes the first 16
  bytes of the blob as the IV and decrypts the rest with AES-256-CBC; when the decrypted
  text is not empty and its final byte \<open>p\<close> is between 1 and its length, the result is the
  decrypted text without its last \<open>p\<close> bytes, whatever these bytes are. It fails when the
  cipher raises and when the decrypted text is empty. The padding is not checked.
\<close>

theorem decrypt_message_strips_unchecked:
  assumes "session_keys sm peer_id = Some key"
  shows "(aes_cbc_decrypt lib key (take 16 blob) (drop 16 blob) = Inr padded \<and> padded \<noteq> [] \<and>
          1 \<le> unat (last padded) \<and> unat (last padded) \<le> length padded \<longrightarrow>
            decrypt_message lib peer_id blob sm =
              Some (take (length padded - unat (last padded)) padded))
       \<and> (aes_cbc_decrypt lib key (take 16 blob) (drop 16 blob) = Inr [] \<longrightarrow>
            decrypt_message lib peer_id blob sm = None)
       \<and> (aes_cbc_decrypt lib key (take 16 blob) (drop 16 blob) = Inl e \<longrightarrow>
            decrypt_message lib peer_id blob sm = None)"
  using assms by (auto simp: decrypt_message_def remove_padding_def Let_def)

lemma standin_decrypts_malformed:
  "aes_cbc_decrypt standin_cryptography [3, 2, 1, 7, 7, 7] (take 16 malformed_blob)
      (drop 16 malformed_blob) = Inr malformed_padded"
  by (simp add: standin_cryptography_def malformed_blob_def malformed_padded_def)

lemma malformed_padded_last:
  "malformed_padded \<noteq> []" "unat (last malformed_padded) = 2" "length malformed_padded = 16"
  by (simp_all add: malformed_padded_def)

theorem decrypt_message_strips_unchecked_witness:
  "session_keys standin_session ''P'' = Some [3, 2, 1, 7, 7, 7]
   \<and> aes_cbc_decrypt standin_cryptography [3, 2, 1, 7, 7, 7] (take 16 malformed_blob)
       (drop 16 malformed_blob) = Inr malformed_padded
   \<and> malformed_padded \<noteq> []
   \<and> 1 \<le> unat (last malformed_padded) \<and> unat (last malformed_padded) \<le> length malformed_padded
   \<and> decrypt_message standin_cryptography ''P'' malformed_blob standin_session =
       Some (take (length malformed_padded - unat (last malformed_padded)) malformed_padded)"
proof -
  have k: "session_keys standin_session ''P'' = Some [3, 2, 1, 7, 7, 7]"
    by (simp add: standin_session_def)
  from decrypt_message_strips_unchecked
         [OF k, of standin_cryptography malformed_blob malformed_padded]
       standin_decrypts_malformed malformed_padded_last k
  show ?thesis by simp
qed

text \<open>
  Claim C9 as stated fails: the decrypted text below ends in \<open>3, 2\<close>, which is not a PKCS#7
  padding (the last two bytes are not both 2), and \<open>decrypt_message\<close> returns its first
  fourteen bytes as the plaintext instead of a failure.
\<close>

theorem decrypt_message_accepts_malformed_padding:
  "aes_cbc_decrypt standin_cryptography [3, 2, 1, 7, 7, 7] (take 16 malformed_blob)
      (drop 16 malformed_blob) = Inr malformed_padded
   \<and> \<not> pkcs7_well_formed malformed_padded
   \<and> decrypt_message standin_cryptography ''P'' malformed_blob standin_session =
       Some [0x41, 0x41, 0x41, 0x41, 0x41, 0x41, 0x41, 0x41, 0x41, 0x41, 0x41, 0x41, 0x41, 0x41]"
proof -
  have r: "replicate 2 (2::byte) = [2, 2]"
    by (simp add: numeral_2_eq_2)
  have 1: "\<not> pkcs7_well_formed malformed_padded"
    by (simp add: pkcs7_well_formed_def malformed_padded_def r)
  have k: "session_keys standin_session ''P'' = Some [3, 2, 1, 7, 7, 7]"
    by (simp add: standin_session_def)
  have "remove_padding malformed_padded =
      Inr [0x41, 0x41, 0x41, 0x41, 0x41, 0x41, 0x41, 0x41, 0x41, 0x41, 0x41, 0x41, 0x41, 0x41]"
    by (simp add: remove_padding_def malformed_padded_def)
  then have 2: "decrypt_message standin_cryptography ''P'' malformed_blob standin_session =
       Some [0x41, 0x41, 0x41, 0x41, 0x41, 0x41, 0x41, 0x41, 0x41, 0x41, 0x41, 0x41, 0x41, 0x41]"
    using k standin_decrypts_malformed by (simp add: decrypt_message_def)
  from 1 2 standin_decrypts_malformed show ?thesis by simp
qed

subsection \<open>rate_limiter.py: the token bucket\<close>

lemma consume_fields:
  "capacity (snd (consume now n b)) = capacity b"
  "fill_rate (snd (consume now n b)) = fill_rate b"
  "last_update (snd (consume now n b)) = now"
  by (simp_all add: consume_def Let_def)

lemma consume_bounds:
  assumes "0 \<le> capacity b" "0 \<le> fill_rate b" "last_update b \<le> now" "0 \<le> n"
    and "0 \<le> tokens b"
  shows "0 \<le> tokens (snd (consume now n b))"
    and "tokens (snd (consume now n b)) \<le> capacity b"
proof -
  have "0 \<le> (now - last_update b) * fill_rate b"
    using assms(2,3) by simp
  then have "0 \<le> tokens b + (now - last_update b) * fill_rate b"
    using assms(5) by simp
  then have m: "0 \<le> min (capacity b) (tokens b + (now - last_update b) * fill_rate b)"
    using assms(1) by simp
  show "0 \<le> tokens (snd (consume now n b))"
    using m by (simp add: consume_def Let_def)
  show "tokens (snd (consume now n b)) \<le> capacity b"
    using assms(4) by (auto simp: consume_def Let_def min_def)
qed

lemma consumes_bounds:
  assumes "0 \<le> capacity b" "0 \<le> fill_rate b" "0 \<le> tokens b" "tokens b \<le> capacity b"
    and "non_decreasing_from (last_update b) cs" "list_all (\<lambda>c. 0 \<le> snd c) cs"
  shows "0 \<le> tokens (consumes cs b) \<and> tokens (consumes cs b) \<le> capacity b"
  using assms
proof (induction cs arbitrary: b)
  case Nil
  then show ?case by simp
next
  case (Cons c cs)
  obtain now n where c: "c = (now, n)" by (cases c)
  let ?b = "snd (consume now n b)"
  from Cons.prems c have t: "last_update b \<le> now" and n: "0 \<le> n"
    and rest: "non_decreasing_from now cs" "list_all (\<lambda>c. 0 \<le> snd c) cs"
    by simp_all
  have "0 \<le> tokens ?b" "tokens ?b \<le> capacity b"
    using consume_bounds [OF Cons.prems(1,2) t n Cons.prems(3)] by simp_all
  then have "0 \<le> tokens (consumes cs ?b) \<and> tokens (consumes cs ?b) \<le> capacity ?b"
    using Cons.prems(1,2) rest by (intro Cons.IH) (simp_all add: consume_fields)
  then show ?case by (simp add: c consume_fields)
qed

text \<open>
  Claim C5, amended: for every token bucket created with a capacity \<open>C \<ge> 0\<close> and a fill rate
  \<open>\<ge> 0\<close>, after any sequence of \<open>consume(n)\<close> calls with \<open>n \<ge> 0\<close> made at clock times that never
  go back (from the creation on), \<open>0 \<le> tokens \<le> C\<close>.
\<close>

theorem token_bucket_bounds:
  assumes "0 \<le> cap" and "0 \<le> rate"
    and "non_decreasing_from t0 cs" and "list_all (\<lambda>c. 0 \<le> snd c) cs"
  shows "0 \<le> tokens (consumes cs (TokenBucket_init t0 cap rate)) \<and>
         tokens (consumes cs (TokenBucket_init t0 cap rate)) \<le> cap"
  using consumes_bounds [of "TokenBucket_init t0 cap rate" cs] assms
  by (simp add: TokenBucket_init_def)

theorem token_bucket_bounds_witness:
  "(0::real) \<le> 10 \<and> (0::real) \<le> 1
   \<and> non_decreasing_from 0 [(1, 3), (2, 20), (5, 4)]
   \<and> list_all (\<lambda>c. 0 \<le> snd c) [(1, 3), (2, 20), (5, 4 :: real)]
   \<and> 0 \<le> tokens (consumes [(1, 3), (2, 20), (5, 4)] (TokenBucket_init 0 10 1))
   \<and> tokens (consumes [(1, 3), (2, 20), (5, 4)] (TokenBucket_init 0 10 1)) \<le> 10"
proof -
  have 1: "non_decreasing_from 0 [(1, 3), (2, 20), (5, 4)]" by simp
  have 2: "list_all (\<lambda>c. 0 \<le> snd c) [(1, 3), (2, 20), (5, 4 :: real)]" by simp
  from token_bucket_bounds [of 10 1 0 "[(1, 3), (2, 20), (5, 4)]"] 1 2
  show ?thesis by simp
qed

text \<open>
  Claim C5 as stated fails for a bucket whose fill rate is negative (nothing checks the rates
  given to the constructor or to \<open>update_limits\<close>): created at time 0 with capacity 10 and
  rate \<open>-1\<close>, a \<open>consume(0)\<close> at time 20 leaves \<open>-10\<close> tokens. It fails as well for a negative
  capacity, before any call.
\<close>

theorem token_bucket_negative_rate:
  "non_decreasing_from 0 [(20, 0)]
   \<and> list_all (\<lambda>c. 0 \<le> snd c) [(20, 0 :: real)]
   \<and> tokens (consumes [(20, 0)] (TokenBucket_init 0 10 (- 1))) = - 10
   \<and> \<not> 0 \<le> tokens (consumes [(20, 0)] (TokenBucket_init 0 10 (- 1)))
   \<and> \<not> 0 \<le> tokens (consumes [] (TokenBucket_init 0 (- 1) 1))"
  by (simp add: TokenBucket_init_def consume_def)

subsection \<open>connection_manager.py: receiving a frame\<close>

text \<open>
  Claim C6, amended: for every incoming frame whose four-byte big-endian length \<open>L\<close> exceeds
  \<^verbatim>\<open>MAX_MESSAGE_SIZE\<close>, \<open>receive_message\<close> raises
  \<^verbatim>\<open>ConnectionError("Failed to receive message: Message size L exceeds maximum 1048576")\<close>
  (a \<^verbatim>\<open>ConnectionError\<close>, like every error it raises) before reading the payload: the
  only read it has asked of the transport is the one of four bytes, and the bytes after the
  length are still in the stream.
\<close>

theorem receive_message_rejects_oversize:
  assumes "4 \<le> length (buffer r)"
    and "MAX_MESSAGE_SIZE < from_bytes_big (take 4 (buffer r))"
  shows "receive_message json_loads r =
           (Inl (Failed_to_receive_message
                   (Message_size_exceeds_maximum (from_bytes_big (take 4 (buffer r)))
                      MAX_MESSAGE_SIZE)),
            r\<lparr>buffer := drop 4 (buffer r), requested := requested r @ [4]\<rparr>)
         \<and> (\<forall>e. fst (receive_message json_loads r) = Inl e \<longrightarrow>
                exn_class e = Class_ConnectionError)"
  using assms
  by (simp add: receive_message_def readexactly_def receive_message_except_def Let_def)

lemma oversize_stream_length:
  "from_bytes_big (take 4 (buffer oversize_stream)) = 2097152"
  by (simp add: oversize_stream_def from_bytes_big_def)

theorem receive_message_rejects_oversize_witness:
  "4 \<le> length (buffer oversize_stream)
   \<and> MAX_MESSAGE_SIZE < from_bytes_big (take 4 (buffer oversize_stream))
   \<and> receive_message rejecting_loads oversize_stream =
       (Inl (Failed_to_receive_message (Message_size_exceeds_maximum 2097152 1048576)),
        \<lparr>buffer = [0, 0, 0, 0, 0, 0, 0, 0], requested = [4]\<rparr>)"
proof -
  have 1: "4 \<le> length (buffer oversize_stream)"
    by (simp add: oversize_stream_def)
  have 2: "MAX_MESSAGE_SIZE < from_bytes_big (take 4 (buffer oversize_stream))"
    by (simp add: oversize_stream_length MAX_MESSAGE_SIZE_def)
  have 3: "oversize_stream\<lparr>buffer := drop 4 (buffer oversize_stream),
                           requested := requested oversize_stream @ [4]\<rparr> =
           \<lparr>buffer = [0, 0, 0, 0, 0, 0, 0, 0], requested = [4]\<rparr>"
    by (simp add: oversize_stream_def)
  from receive_message_rejects_oversize [OF 1 2, of rejecting_loads] 1 2
  show ?thesis by (simp add: oversize_stream_length MAX_MESSAGE_SIZE_def 3)
qed

text \<open>
  Claim C6 as stated fails in the kind of the error: on the stream above the exception that
  leaves \<open>receive_message\<close> is a \<^verbatim>\<open>ConnectionError\<close>, not a \<^verbatim>\<open>PROTOCOL_ERROR\<close>.
\<close>

theorem receive_message_not_protocol_error:
  "fst (receive_message rejecting_loads oversize_stream) =
     Inl (Failed_to_receive_message (Message_size_exceeds_maximum 2097152 1048576))
   \<and> exn_class (Failed_to_receive_message (Message_size_exceeds_maximum 2097152 1048576)) =
       Class_ConnectionError
   \<and> \<not> is_PROTOCOL_ERROR
         (Failed_to_receive_message (Message_size_exceeds_maximum 2097152 1048576))"
  by (simp add: receive_message_def readexactly_def receive_message_except_def Let_def
      oversize_stream_length MAX_MESSAGE_SIZE_def)
     (simp add: oversize_stream_def)

subsection \<open>rate_limiter.py: what a denial leaves behind\<close>

lemma consume_True_tokens:
  assumes "consume now n b = (True, b')"
  shows "tokens b' = min (capacity b) (tokens b + (now - last_update b) * fill_rate b) - n"
  using assms by (auto simp: consume_def Let_def split: if_splits)

text \<open>
  Claim C10: when \<open>is_allowed\<close> denies a call at the per-peer stage (the peer's message
  bucket or its bandwidth bucket fails to consume), the peer is registered and not blocked,
  the global message bucket has consumed 1 token and the global bandwidth bucket \<open>size\<close>
  tokens, and the limiter that the call leaves behind holds the two global buckets as
  debited: nothing gives the tokens back.
\<close>

theorem peer_denial_keeps_global_debit:
  assumes "is_allowed ck nid ty sz rl = ((False, Some (Text d)), rl')"
    and "d = ''Peer message rate limit exceeded'' \<or> d = ''Peer bandwidth limit exceeded''"
  shows "(\<exists>peer. peers rl nid = Some peer \<and> \<not> t_now ck < blocked_until peer)
       \<and> consume (t_global_message ck) 1 (global_message_bucket rl) =
           (True, global_message_bucket rl')
       \<and> consume (t_global_bandwidth ck) (of_int sz) (global_bandwidth_bucket rl) =
           (True, global_bandwidth_bucket rl')
       \<and> tokens (global_message_bucket rl') =
           min (capacity (global_message_bucket rl))
             (tokens (global_message_bucket rl) +
              (t_global_message ck - last_update (global_message_bucket rl)) *
                fill_rate (global_message_bucket rl)) - 1
       \<and> tokens (global_bandwidth_bucket rl') =
           min (capacity (global_bandwidth_bucket rl))
             (tokens (global_bandwidth_bucket rl) +
              (t_global_bandwidth ck - last_update (global_bandwidth_bucket rl)) *
                fill_rate (global_bandwidth_bucket rl)) - of_int sz"
proof -
  obtain ok1 gm where c1: "consume (t_global_message ck) 1 (global_message_bucket rl) = (ok1, gm)"
    by (cases "consume (t_global_message ck) 1 (global_message_bucket rl)")
  obtain ok2 gb where
    c2: "consume (t_global_bandwidth ck) (of_int sz) (global_bandwidth_bucket rl) = (ok2, gb)"
    by (cases "consume (t_global_bandwidth ck) (of_int sz) (global_bandwidth_bucket rl)")
  from assms c1 c2
  have *: "(\<exists>peer. peers rl nid = Some peer \<and> \<not> t_now ck < blocked_until peer)
        \<and> ok1 \<and> ok2 \<and> global_message_bucket rl' = gm \<and> global_bandwidth_bucket rl' = gb"
    unfolding is_allowed_def
    by (auto simp: Let_def split: option.splits if_splits prod.splits)
  with c1 c2 consume_True_tokens [of "t_global_message ck" 1 "global_message_bucket rl" gm]
    consume_True_tokens [of "t_global_bandwidth ck" "of_int sz" "global_bandwidth_bucket rl" gb]
  show ?thesis by simp
qed

lemma starved_denied:
  "fst (is_allowed (at_time 1) ''P'' ''block'' 100 starved_limiter) =
     (False, Some (Text ''Peer message rate limit exceeded''))"
  by (simp add: is_allowed_def at_time_def starved_limiter_def fresh_limiter_def
      update_limits_def add_peer_def RateLimiter_init_def TokenBucket_init_def consume_def
      Let_def)

lemma starved_global:
  "global_message_bucket starved_limiter =
     \<lparr>capacity = 1000, fill_rate = 1000, tokens = 1000, last_update = 0\<rparr>"
  "global_bandwidth_bucket starved_limiter =
     \<lparr>capacity = 10485760, fill_rate = 10485760, tokens = 10485760, last_update = 0\<rparr>"
  by (simp_all add: starved_limiter_def fresh_limiter_def update_limits_def add_peer_def
      RateLimiter_init_def TokenBucket_init_def Let_def)

theorem peer_denial_keeps_global_debit_witness:
  "fst (is_allowed (at_time 1) ''P'' ''block'' 100 starved_limiter) =
     (False, Some (Text ''Peer message rate limit exceeded''))
   \<and> tokens (global_message_bucket starved_limiter) = 1000
   \<and> tokens (global_message_bucket
        (snd (is_allowed (at_time 1) ''P'' ''block'' 100 starved_limiter))) = 999
   \<and> tokens (global_bandwidth_bucket starved_limiter) = 10485760
   \<and> tokens (global_bandwidth_bucket
        (snd (is_allowed (at_time 1) ''P'' ''block'' 100 starved_limiter))) = 10485660"
proof -
  have e: "is_allowed (at_time 1) ''P'' ''block'' 100 starved_limiter =
      ((False, Some (Text ''Peer message rate limit exceeded'')),
       snd (is_allowed (at_time 1) ''P'' ''block'' 100 starved_limiter))"
    using starved_denied by (simp add: prod_eq_iff)
  from peer_denial_keeps_global_debit [OF e] starved_denied
  show ?thesis by (simp add: starved_global at_time_def)
qed

subsection \<open>rate_limiter.py: the request window never blocks\<close>

lemma deque_append_length: "length (deque_append maxlen xs x) \<le> maxlen"
  by (simp add: deque_append_def Let_def)

lemma check_request_frequency_short:
  assumes "length (request_history peer) \<le> max_requests_per_window rl"
  shows "blocked_until (check_request_frequency rl now now_block peer) = blocked_until peer"
    and "message_bucket (check_request_frequency rl now now_block peer) = message_bucket peer"
    and "bandwidth_bucket (check_request_frequency rl now now_block peer) =
           bandwidth_bucket peer"
proof -
  have "length (dropWhile (\<lambda>r. fst r < now - request_window rl) (request_history peer))
          \<le> length (request_history peer)"
    by (rule length_dropWhile_le)
  with assms
  have "\<not> max_requests_per_window rl
          < length (dropWhile (\<lambda>r. fst r < now - request_window rl) (request_history peer))"
    by simp
  then show "blocked_until (check_request_frequency rl now now_block peer) = blocked_until peer"
    and "message_bucket (check_request_frequency rl now now_block peer) = message_bucket peer"
    and "bandwidth_bucket (check_request_frequency rl now now_block peer) =
           bandwidth_bucket peer"
    by (simp_all add: check_request_frequency_def Let_def)
qed

text \<open>
  The history is a deque of at most 1000 entries and the test for blocking is
  \<^verbatim>\<open>len(history) > 1000\<close>: whatever the clock, the history and the buckets are, a call of
  \<open>is_allowed\<close> leaves \<open>blocked_until\<close> of every peer as it was.
\<close>

lemma check_request_frequency_deque:
  assumes "request_history_maxlen \<le> max_requests_per_window rl"
  shows "blocked_until
           (check_request_frequency rl now now_block
              (peer\<lparr>request_history := deque_append request_history_maxlen h e\<rparr>)) =
         blocked_until peer"
proof -
  have "length (request_history
                  (peer\<lparr>request_history := deque_append request_history_maxlen h e\<rparr>))
          \<le> max_requests_per_window rl"
    using deque_append_length [of request_history_maxlen h e] assms by simp
  from check_request_frequency_short(1) [OF this] show ?thesis by simp
qed

lemma is_allowed_never_blocks:
  assumes "request_history_maxlen \<le> max_requests_per_window rl"
  shows "map_option blocked_until (peers (snd (is_allowed ck nid ty sz rl)) p) =
         map_option blocked_until (peers rl p)"
proof (cases "peers rl nid")
  case None
  then show ?thesis by (simp add: is_allowed_def)
next
  case (Some peer)
  then show ?thesis
    using assms
    by (auto simp: is_allowed_def Let_def check_request_frequency_deque split: prod.splits)
qed

lemma consume_refilled:
  assumes "refilled t n dt b"
  shows "consume t n b = (True, b\<lparr>tokens := capacity b - n, last_update := t\<rparr>)"
  using assms by (simp add: refilled_def consume_def Let_def min_def)

lemma refilled_next:
  assumes "refilled t n dt b"
  shows "refilled (t + dt) n dt (b\<lparr>tokens := capacity b - n, last_update := t\<rparr>)"
  using assms by (simp add: refilled_def)

text \<open>
  One call on a ready limiter: it is allowed, and the limiter is ready again \<open>dt\<close> seconds
  later.
\<close>

lemma is_allowed_ready:
  assumes "ready t dt nid sz rl" and "0 \<le> dt"
  shows "fst (is_allowed (at_time t) nid ty sz rl) = (True, None)"
    and "ready (t + dt) dt nid sz (snd (is_allowed (at_time t) nid ty sz rl))"
proof -
  from assms(1) obtain peer where
    peer: "peers rl nid = Some peer" and
    blocked: "blocked_until peer \<le> t" and
    bound: "request_history_maxlen \<le> max_requests_per_window rl" and
    gm: "refilled t 1 dt (global_message_bucket rl)" and
    gb: "refilled t (of_int sz) dt (global_bandwidth_bucket rl)" and
    pm: "refilled t 1 dt (message_bucket peer)" and
    pb: "refilled t (of_int sz) dt (bandwidth_bucket peer)"
    by (auto simp: ready_def split: option.splits)
  let ?gm = "(global_message_bucket rl)
               \<lparr>tokens := capacity (global_message_bucket rl) - 1, last_update := t\<rparr>"
  let ?gb = "(global_bandwidth_bucket rl)
               \<lparr>tokens := capacity (global_bandwidth_bucket rl) - of_int sz, last_update := t\<rparr>"
  let ?pm = "(message_bucket peer)
               \<lparr>tokens := capacity (message_bucket peer) - 1, last_update := t\<rparr>"
  let ?pb = "(bandwidth_bucket peer)
               \<lparr>tokens := capacity (bandwidth_bucket peer) - of_int sz, last_update := t\<rparr>"
  let ?peer3 = "peer\<lparr>message_bucket := ?pm, bandwidth_bucket := ?pb,
                     request_history :=
                       deque_append request_history_maxlen (request_history peer)
                         (t, ty, sz)\<rparr>"
  let ?rl4 = "rl\<lparr>global_message_bucket := ?gm, global_bandwidth_bucket := ?gb,
                 peers := (peers rl)(nid \<mapsto> peer\<lparr>message_bucket := ?pm,
                                                     bandwidth_bucket := ?pb\<rparr>)\<rparr>"
  let ?peer4 = "check_request_frequency ?rl4 t t ?peer3"
  have short: "length (request_history ?peer3) \<le> max_requests_per_window ?rl4"
    using deque_append_length [of request_history_maxlen "request_history peer" "(t, ty, sz)"]
      bound
    by simp
  have res: "is_allowed (at_time t) nid ty sz rl =
               ((True, None), ?rl4\<lparr>peers := (peers ?rl4)(nid \<mapsto> ?peer4)\<rparr>)"
    using peer blocked
    by (simp add: is_allowed_def at_time_def Let_def consume_refilled [OF gm]
        consume_refilled [OF gb] consume_refilled [OF pm] consume_refilled [OF pb])
  show "fst (is_allowed (at_time t) nid ty sz rl) = (True, None)"
    by (simp add: res)
  have "blocked_until ?peer4 \<le> t + dt"
    using check_request_frequency_short(1) [OF short] blocked assms(2) by simp
  moreover have "message_bucket ?peer4 = ?pm" "bandwidth_bucket ?peer4 = ?pb"
    using check_request_frequency_short(2,3) [OF short] by simp_all
  ultimately show "ready (t + dt) dt nid sz (snd (is_allowed (at_time t) nid ty sz rl))"
    using bound refilled_next [OF gm] refilled_next [OF gb] refilled_next [OF pm]
      refilled_next [OF pb]
    by (simp add: res ready_def)
qed

text \<open>A run of \<open>k\<close> calls, \<open>dt\<close> seconds apart, on a limiter that is ready at the first.\<close>

lemma send_messages_ready:
  assumes "ready t0 dt nid sz rl" and "0 \<le> dt"
  shows "fst (send_messages k t0 dt nid ty sz rl)
       \<and> ready (t0 + real k * dt) dt nid sz (snd (send_messages k t0 dt nid ty sz rl))
       \<and> map_option blocked_until (peers (snd (send_messages k t0 dt nid ty sz rl)) nid) =
           map_option blocked_until (peers rl nid)"
proof (induction k)
  case 0
  show ?case using assms(1) by simp
next
  case (Suc k)
  let ?rl = "snd (send_messages k t0 dt nid ty sz rl)"
  let ?t = "t0 + real k * dt"
  from Suc have ok: "fst (send_messages k t0 dt nid ty sz rl)" and r: "ready ?t dt nid sz ?rl"
    and b: "map_option blocked_until (peers ?rl nid) = map_option blocked_until (peers rl nid)"
    by simp_all
  have bound: "request_history_maxlen \<le> max_requests_per_window ?rl"
    using r by (simp add: ready_def)
  have t: "t0 + real (Suc k) * dt = ?t + dt"
    by (simp add: algebra_simps)
  have step: "send_messages (Suc k) t0 dt nid ty sz rl =
      (fst (send_messages k t0 dt nid ty sz rl) \<and> fst (fst (is_allowed (at_time ?t) nid ty sz ?rl)),
       snd (is_allowed (at_time ?t) nid ty sz ?rl))"
    by (simp add: Let_def split: prod.splits)
  show ?case
    unfolding step t
    using ok is_allowed_ready [OF r assms(2), of ty] is_allowed_never_blocks [OF bound, of _ nid ty sz nid]
      b
    by simp
qed

lemma fresh_limiter_ready: "ready 0 (1 / 20) ''P'' 100 fresh_limiter"
  by (simp add: ready_def refilled_def fresh_limiter_def add_peer_def RateLimiter_init_def
      TokenBucket_init_def request_history_maxlen_def)

lemma fresh_limiter_unblocked:
  "map_option blocked_until (peers fresh_limiter ''P'') = Some 0"
  by (simp add: fresh_limiter_def add_peer_def RateLimiter_init_def)

text \<open>
  Claim C2 says that once a peer has made more than 1000 requests inside the 60-second
  window the limiter blocks it for 300 seconds, so that after 1001 allowed small messages
  within 60 seconds the calls that follow are denied as blocked. In the code a peer
  registered with the defaults sends 1001 messages of 100 bytes, one every 50 milliseconds
  from time 0 to time 50: every one of them is allowed, \<open>blocked_until\<close> is still 0 after the
  last, and the next call, at 50.05 seconds, is allowed as well.
\<close>

theorem no_block_after_1001_messages:
  "fst (send_messages 1001 0 (1 / 20) ''P'' ''heartbeat'' 100 fresh_limiter)
   \<and> map_option blocked_until
       (peers (snd (send_messages 1001 0 (1 / 20) ''P'' ''heartbeat'' 100 fresh_limiter)) ''P'') =
       Some 0
   \<and> fst (is_allowed (at_time (1001 / 20)) ''P'' ''heartbeat'' 100
            (snd (send_messages 1001 0 (1 / 20) ''P'' ''heartbeat'' 100 fresh_limiter))) =
       (True, None)"
proof -
  let ?rl = "snd (send_messages 1001 0 (1 / 20) ''P'' ''heartbeat'' 100 fresh_limiter)"
  have run: "fst (send_messages 1001 0 (1 / 20) ''P'' ''heartbeat'' 100 fresh_limiter)
       \<and> ready (0 + real 1001 * (1 / 20)) (1 / 20) ''P'' 100 ?rl
       \<and> map_option blocked_until (peers ?rl ''P'') =
           map_option blocked_until (peers fresh_limiter ''P'')"
    by (rule send_messages_ready [OF fresh_limiter_ready]) simp
  then have r: "ready (1001 / 20) (1 / 20) ''P'' 100 ?rl"
    by simp
  have "fst (is_allowed (at_time (1001 / 20)) ''P'' ''heartbeat'' 100 ?rl) = (True, None)"
    by (rule is_allowed_ready(1) [OF r]) simp
  with run fresh_limiter_unblocked show ?thesis by simp
qed

end
